theory Spec2Isabelle
  imports Main "HOL-Library.Word"
begin

section \<open>Python values used by \<open>simulator/send-hl7.py\<close>\<close>

text \<open>
  A Python \<open>str\<close> is a sequence of Unicode code points, a \<open>bytes\<close> object a sequence
  of octets. String literals of the source are written with \<open>lit\<close>, which reads each
  ASCII character of the HOL literal as its code point.
\<close>

type_synonym pystr = "nat list"
type_synonym byte = "8 word"
type_synonym pybytes = "byte list"

definition lit :: "string \<Rightarrow> pystr" where
  "lit s = map of_char s"

text \<open>
  The exception classes that the script can meet. \<open>KeyboardInterrupt\<close> and
  \<open>SystemExit\<close> derive from \<open>BaseException\<close> only; every other class listed derives
  from \<open>Exception\<close>.
\<close>

datatype exc_class =
    ValueError
  | OverflowError
  | UnicodeEncodeError
  | ConnectionRefusedError
  | TimeoutError
  | ConnectionResetError
  | OSError
  | KeyboardInterrupt
  | SystemExit

fun isinstance_Exception :: "exc_class \<Rightarrow> bool" where
  "isinstance_Exception KeyboardInterrupt = False"
| "isinstance_Exception SystemExit = False"
| "isinstance_Exception _ = True"

subsection \<open>Formatting integers\<close>

fun digit_char :: "nat \<Rightarrow> nat" where
  "digit_char d = 48 + d"

fun dec_digits :: "nat \<Rightarrow> pystr" where
  "dec_digits n = (if n < 10 then [digit_char n] else dec_digits (n div 10) @ [digit_char (n mod 10)])"

declare dec_digits.simps [simp del]

text \<open>\<open>str(n)\<close>, and \<open>{n}\<close> inside an f-string, for an \<open>int\<close>.\<close>

definition str_int :: "int \<Rightarrow> pystr" where
  "str_int n = (if n < 0 then 45 # dec_digits (nat (- n)) else dec_digits (nat n))"

text \<open>Left padding with \<open>0\<close> up to a minimum width; longer digit strings are kept whole.\<close>

definition zero_pad :: "nat \<Rightarrow> pystr \<Rightarrow> pystr" where
  "zero_pad w ds = replicate (w - length ds) 48 @ ds"

text \<open>
  The format specification \<open>06d\<close>: sign first, then zeros, the whole field at least six
  characters wide.
\<close>

definition format_06d :: "int \<Rightarrow> pystr" where
  "format_06d n =
     (if n < 0 then 45 # zero_pad 5 (dec_digits (nat (- n)))
      else zero_pad 6 (dec_digits (nat n)))"

text \<open>Reading a digit string back, used to state what a control ID counts.\<close>

definition digits_value :: "pystr \<Rightarrow> nat" where
  "digits_value ds = foldl (\<lambda>acc c. 10 * acc + (c - 48)) 0 ds"

subsection \<open>Strings\<close>

text \<open>\<open>sep.join(parts)\<close>.\<close>

fun join :: "pystr \<Rightarrow> pystr list \<Rightarrow> pystr" where
  "join sep [] = []"
| "join sep [p] = p"
| "join sep (p # q # ps) = p @ sep @ join sep (q # ps)"

text \<open>
  \<open>s.split(' ')\<close> with an explicit one-character separator and no \<open>maxsplit\<close>: the string
  is cut at every occurrence, empty pieces are kept, and the result has one piece more
  than there are separators.
\<close>

fun split_on :: "nat \<Rightarrow> pystr \<Rightarrow> pystr list" where
  "split_on sep [] = [Nil]"
| "split_on sep (c # cs) =
     (if c = sep then [] # split_on sep cs
      else (case split_on sep cs of
              [] \<Rightarrow> [c # Nil]
            | p # ps \<Rightarrow> (c # p) # ps))"

text \<open>\<open>needle in haystack\<close> for strings: a contiguous occurrence.\<close>

fun starts_with :: "pystr \<Rightarrow> pystr \<Rightarrow> bool" where
  "starts_with [] hay = True"
| "starts_with (n # ns) [] = False"
| "starts_with (n # ns) (h # hs) = (n = h \<and> starts_with ns hs)"

fun contains :: "pystr \<Rightarrow> pystr \<Rightarrow> bool" where
  "contains needle [] = (needle = [])"
| "contains needle (h # hs) = (starts_with needle (h # hs) \<or> contains needle hs)"

subsection \<open>UTF-8\<close>

text \<open>
  \<open>s.encode('utf-8')\<close>. A lone surrogate (U+D800 to U+DFFF) has no encoding and
  raises \<open>UnicodeEncodeError\<close>; a \<open>str\<close> holds no code point above U+10FFFF.
\<close>

definition utf8_char :: "nat \<Rightarrow> exc_class + pybytes" where
  "utf8_char c =
     (if c < 0x80 then Inr [of_nat c]
      else if c < 0x800 then Inr [of_nat (0xC0 + c div 64), of_nat (0x80 + c mod 64)]
      else if 0xD800 \<le> c \<and> c \<le> 0xDFFF then Inl UnicodeEncodeError
      else if c < 0x10000 then
        Inr [of_nat (0xE0 + c div 4096), of_nat (0x80 + c div 64 mod 64), of_nat (0x80 + c mod 64)]
      else
        Inr [of_nat (0xF0 + c div 262144), of_nat (0x80 + c div 4096 mod 64),
             of_nat (0x80 + c div 64 mod 64), of_nat (0x80 + c mod 64)])"

fun encode_utf8 :: "pystr \<Rightarrow> exc_class + pybytes" where
  "encode_utf8 [] = Inr []"
| "encode_utf8 (c # cs) =
     (case utf8_char c of
        Inl e \<Rightarrow> Inl e
      | Inr bs \<Rightarrow> (case encode_utf8 cs of Inl e \<Rightarrow> Inl e | Inr rest \<Rightarrow> Inr (bs @ rest)))"

subsection \<open>Naive date-times\<close>

text \<open>
  \<open>datetime.now()\<close> returns a naive local date-time. Its fields are kept as the
  class keeps them; \<open>valid_datetime\<close> is the class invariant.
\<close>

record datetime =
  year :: nat
  month :: nat
  day :: nat
  hour :: nat
  minute :: nat
  second :: nat
  microsecond :: nat

definition is_leap :: "nat \<Rightarrow> bool" where
  "is_leap y = (y mod 4 = 0 \<and> (y mod 100 \<noteq> 0 \<or> y mod 400 = 0))"

definition days_in_month :: "nat \<Rightarrow> nat \<Rightarrow> nat" where
  "days_in_month y m =
     (if m = 2 then (if is_leap y then 29 else 28)
      else if m = 4 \<or> m = 6 \<or> m = 9 \<or> m = 11 then 30
      else 31)"

definition valid_datetime :: "datetime \<Rightarrow> bool" where
  "valid_datetime t =
     (1 \<le> year t \<and> year t \<le> 9999 \<and> 1 \<le> month t \<and> month t \<le> 12 \<and>
      1 \<le> day t \<and> day t \<le> days_in_month (year t) (month t) \<and>
      hour t < 24 \<and> minute t < 60 \<and> second t < 60 \<and> microsecond t < 1000000)"

definition next_day :: "datetime \<Rightarrow> datetime" where
  "next_day t =
     (if day t < days_in_month (year t) (month t) then t\<lparr>day := day t + 1\<rparr>
      else if month t < 12 then t\<lparr>month := month t + 1, day := 1\<rparr>
      else t\<lparr>year := year t + 1, month := 1, day := 1\<rparr>)"

text \<open>
  \<open>t + timedelta(hours=h)\<close>: the hours carry into whole days, the calendar date moves
  on by that many days, and a result after year 9999 raises \<open>OverflowError\<close>.
\<close>

definition plus_hours :: "datetime \<Rightarrow> nat \<Rightarrow> exc_class + datetime" where
  "plus_hours t h =
     (let total = hour t + h;
          moved = (next_day ^^ (total div 24)) t
      in if year moved > 9999 then Inl OverflowError
         else Inr (moved\<lparr>hour := total mod 24\<rparr>))"

text \<open>
  \<open>strftime\<close> with the two format strings of the source. \<open>%Y\<close> is the year with
  century, four digits; the other directives are two digits each. (Below year 1000 some
  C libraries leave \<open>%Y\<close> unpadded; the properties of timestamps proved here are stated
  for readings from year 1000 on.)
\<close>

definition strftime_YmdHMS :: "datetime \<Rightarrow> pystr" where
  "strftime_YmdHMS t =
     zero_pad 4 (dec_digits (year t)) @ zero_pad 2 (dec_digits (month t)) @
     zero_pad 2 (dec_digits (day t)) @ zero_pad 2 (dec_digits (hour t)) @
     zero_pad 2 (dec_digits (minute t)) @ zero_pad 2 (dec_digits (second t))"

definition strftime_YmdHM :: "datetime \<Rightarrow> pystr" where
  "strftime_YmdHM t =
     zero_pad 4 (dec_digits (year t)) @ zero_pad 2 (dec_digits (month t)) @
     zero_pad 2 (dec_digits (day t)) @ zero_pad 2 (dec_digits (hour t)) @
     zero_pad 2 (dec_digits (minute t))"

text \<open>
  Minutes since the start of year 1, by the proleptic Gregorian day count. It measures
  how far apart two date-times are and plays no part in the program.
\<close>

definition days_before_year :: "nat \<Rightarrow> nat" where
  "days_before_year y = 365 * (y - 1) + (y - 1) div 4 - (y - 1) div 100 + (y - 1) div 400"

fun days_before_month :: "nat \<Rightarrow> nat \<Rightarrow> nat" where
  "days_before_month y m = (\<Sum>k \<leftarrow> [1..<m]. days_in_month y k)"

definition minutes_since_epoch :: "datetime \<Rightarrow> nat" where
  "minutes_since_epoch t =
     ((days_before_year (year t) + days_before_month (year t) (month t) + (day t - 1)) * 24
        + hour t) * 60 + minute t"

subsection \<open>Random numbers\<close>

text \<open>
  The generator is part of the environment: each draw hands the program an arbitrary
  natural number \<open>r\<close>, and \<open>_randbelow(n)\<close> reduces it below \<open>n\<close>. Every value below
  \<open>n\<close> can come out and no other. \<open>randint(a, b)\<close> is \<open>a + _randbelow(b - a + 1)\<close> and
  \<open>choice(seq)\<close> is \<open>seq[_randbelow(len(seq))]\<close>.
\<close>

definition randbelow :: "nat \<Rightarrow> nat \<Rightarrow> nat" where
  "randbelow n r = r mod n"

definition randint :: "int \<Rightarrow> int \<Rightarrow> nat \<Rightarrow> int" where
  "randint a b r = a + int (randbelow (nat (b - a + 1)) r)"

definition choice :: "'a list \<Rightarrow> nat \<Rightarrow> 'a" where
  "choice xs r = xs ! randbelow (length xs) r"

section \<open>The simulator\<close>

record HL7Simulator =
  host :: pystr
  port :: int
  message_count :: int

text \<open>\<open>HL7Simulator.__init__\<close>.\<close>

definition init :: "pystr \<Rightarrow> int \<Rightarrow> HL7Simulator" where
  "init h p = \<lparr>host = h, port = p, message_count = 0\<rparr>"

text \<open>
  What the world hands to one call of \<open>create_hl7_message\<close>: the draw behind
  \<open>randint(100000, 999999)\<close> (made only when no MRN is supplied), the draw behind
  \<open>randint(1000, 9999)\<close>, and the two readings of the clock, in source order.
\<close>

record call_env =
  rand_mrn :: nat
  rand_sch :: nat
  now_first :: datetime
  now_second :: datetime

subsection \<open>The pieces of \<open>create_hl7_message\<close>\<close>

text \<open>\<open>if not mrn: mrn = f"MRN{random.randint(100000, 999999)}"\<close>; \<open>None\<close> and the empty
  string are both falsy.\<close>

definition mrn_or_random :: "call_env \<Rightarrow> pystr option \<Rightarrow> pystr" where
  "mrn_or_random env mrn =
     (case mrn of
        None \<Rightarrow> lit ''MRN'' @ str_int (randint 100000 999999 (rand_mrn env))
      | Some m \<Rightarrow> if m = [] then lit ''MRN'' @ str_int (randint 100000 999999 (rand_mrn env))
                  else m)"

definition message_id :: "int \<Rightarrow> pystr" where
  "message_id count = lit ''MSG'' @ format_06d count"

definition timestamp :: "call_env \<Rightarrow> pystr" where
  "timestamp env = strftime_YmdHMS (now_first env)"

definition apt_timestamp :: "call_env \<Rightarrow> exc_class + pystr" where
  "apt_timestamp env =
     (case plus_hours (now_second env) 2 of
        Inl e \<Rightarrow> Inl e
      | Inr apt_time \<Rightarrow> Inr (strftime_YmdHM apt_time))"

text \<open>
  \<open>last_name, first_name = patient_name.split(' ') if ' ' in patient_name else
  (patient_name, "Test")\<close>. Unpacking into two names needs exactly two pieces; more
  raise \<open>ValueError\<close> (fewer cannot occur once a space is present).
\<close>

definition split_name :: "pystr \<Rightarrow> exc_class + (pystr \<times> pystr)" where
  "split_name patient_name =
     (if 32 \<in> set patient_name then
        (case split_on 32 patient_name of
           [a, b] \<Rightarrow> Inr (a, b)
         | _ \<Rightarrow> Inl ValueError)
      else Inr (patient_name, lit ''Test''))"

definition study_codes :: "(pystr \<times> pystr) list" where
  "study_codes =
     [(lit ''MRI'', lit ''MRI001^MRI BRAIN W/O CONTRAST''),
      (lit ''CT'', lit ''CT002^CT CHEST W CONTRAST''),
      (lit ''XRAY'', lit ''XR003^CHEST XRAY 2 VIEWS''),
      (lit ''US'', lit ''US004^ABDOMINAL ULTRASOUND'')]"

text \<open>\<open>d.get(key, default)\<close>.\<close>

definition dict_get :: "('k \<times> 'v) list \<Rightarrow> 'k \<Rightarrow> 'v \<Rightarrow> 'v" where
  "dict_get d k dflt = (case map_of d k of None \<Rightarrow> dflt | Some v \<Rightarrow> v)"

definition study_code :: "pystr \<Rightarrow> pystr" where
  "study_code modality = dict_get study_codes modality (lit ''MRI001^MRI BRAIN W/O CONTRAST'')"

text \<open>
  The list \<open>segments\<close> as the body builds it, in source order: the MRN, the control ID
  and the message timestamp first, then the appointment time (which may overflow), then
  MSH and SCH, then the name split (which may fail), then PID, RGS, AIS and AIP. The
  backslash of the MSH encoding characters is code point 92.
\<close>

definition hl7_segments ::
  "int \<Rightarrow> call_env \<Rightarrow> pystr \<Rightarrow> pystr option \<Rightarrow> pystr \<Rightarrow> exc_class + pystr list" where
  "hl7_segments count env patient_name mrn modality =
     (let mrn' = mrn_or_random env mrn;
          msg_id = message_id count;
          ts = timestamp env
      in case apt_timestamp env of
           Inl e \<Rightarrow> Inl e
         | Inr apt \<Rightarrow>
             (let msh = lit ''MSH|^~'' @ [92] @ lit ''&|RIS|MEMORIAL|RADSCHED|RAD|'' @ ts
                        @ lit ''||SIU^S12|'' @ msg_id @ lit ''|P|2.5'';
                  sch = lit ''SCH||'' @ str_int (randint 1000 9999 (rand_sch env))
                        @ lit ''|||||||30|MIN|^^30^'' @ apt
                        @ lit ''^^R||||||||||||||SCHEDULED''
              in case split_name patient_name of
                   Inl e \<Rightarrow> Inl e
                 | Inr (last_name, first_name) \<Rightarrow>
                     Inr [msh,
                          sch,
                          lit ''PID|1||'' @ mrn' @ lit ''||'' @ last_name @ lit ''^'' @ first_name
                            @ lit ''||19800101|M|||123 Main St^^Boston^MA^02101||617-555-0123'',
                          lit ''RGS|1|A'',
                          lit ''AIS|1|A|'' @ study_code modality @ lit ''|'' @ apt,
                          lit ''AIP|1|A|RADIOLOGIST^DOE^JOHN^MD|'' @ apt]))"

text \<open>
  \<open>create_hl7_message\<close>: the counter is incremented first, so the new state is returned
  whether or not the rest of the body raises. The segments are joined by carriage
  return (13), wrapped in 0x0B and 0x1C 0x0D, and encoded.
\<close>

definition create_hl7_message ::
  "HL7Simulator \<Rightarrow> call_env \<Rightarrow> pystr \<Rightarrow> pystr option \<Rightarrow> pystr
     \<Rightarrow> HL7Simulator \<times> (exc_class + pybytes)" where
  "create_hl7_message self env patient_name mrn modality =
     (let self' = self\<lparr>message_count := message_count self + 1\<rparr>
      in (self',
          case hl7_segments (message_count self') env patient_name mrn modality of
            Inl e \<Rightarrow> Inl e
          | Inr segments \<Rightarrow> encode_utf8 ([11] @ join [13] segments @ [28, 13])))"

subsection \<open>Decoding the acknowledgment\<close>

text \<open>
  \<open>response.decode('utf-8', errors='ignore')\<close>. At each position the decoder reads one
  well-formed sequence (shortest form, no surrogate, nothing above U+10FFFF); where
  there is none it drops the byte and goes on, so no input makes it raise.
  \<open>utf8_sequence\<close> returns the code point and how many continuation bytes it used.
\<close>

definition in_range :: "nat \<Rightarrow> nat \<Rightarrow> byte \<Rightarrow> bool" where
  "in_range lo hi b = (lo \<le> unat b \<and> unat b \<le> hi)"

definition utf8_sequence :: "byte \<Rightarrow> pybytes \<Rightarrow> (nat \<times> nat) option" where
  "utf8_sequence b bs =
     (let b0 = unat b in
      if b0 < 0x80 then Some (b0, 0)
      else if 0xC2 \<le> b0 \<and> b0 \<le> 0xDF then
        (case bs of
           c1 # _ \<Rightarrow>
             if in_range 0x80 0xBF c1 then Some ((b0 - 0xC0) * 64 + (unat c1 - 0x80), 1)
             else None
         | _ \<Rightarrow> None)
      else if 0xE0 \<le> b0 \<and> b0 \<le> 0xEF then
        (case bs of
           c1 # c2 # _ \<Rightarrow>
             if in_range (if b0 = 0xE0 then 0xA0 else 0x80) (if b0 = 0xED then 0x9F else 0xBF) c1
                \<and> in_range 0x80 0xBF c2
             then Some ((b0 - 0xE0) * 4096 + (unat c1 - 0x80) * 64 + (unat c2 - 0x80), 2)
             else None
         | _ \<Rightarrow> None)
      else if 0xF0 \<le> b0 \<and> b0 \<le> 0xF4 then
        (case bs of
           c1 # c2 # c3 # _ \<Rightarrow>
             if in_range (if b0 = 0xF0 then 0x90 else 0x80) (if b0 = 0xF4 then 0x8F else 0xBF) c1
                \<and> in_range 0x80 0xBF c2 \<and> in_range 0x80 0xBF c3
             then Some ((b0 - 0xF0) * 262144 + (unat c1 - 0x80) * 4096
                        + (unat c2 - 0x80) * 64 + (unat c3 - 0x80), 3)
             else None
         | _ \<Rightarrow> None)
      else None)"

fun decode_utf8_ignore :: "pybytes \<Rightarrow> pystr" where
  "decode_utf8_ignore [] = []"
| "decode_utf8_ignore (b # bs) =
     (case utf8_sequence b bs of
        Some (cp, n) \<Rightarrow> cp # decode_utf8_ignore (drop n bs)
      | None \<Rightarrow> decode_utf8_ignore bs)"

subsection \<open>\<open>send_message\<close>\<close>

text \<open>
  The network is part of the environment. Each socket operation either goes through or
  raises; a raised exception is its class together with \<open>str(e)\<close>. The outcome of
  \<open>connect\<close> may depend on the address and that of \<open>send\<close> on the bytes written;
  \<open>recv(1024)\<close> yields the bytes read.
\<close>

type_synonym py_exception = "exc_class \<times> pystr"

record net_env =
  socket_result :: "py_exception option"
  connect_result :: "pystr \<times> int \<Rightarrow> py_exception option"
  send_result :: "pybytes \<Rightarrow> py_exception option"
  recv_result :: "py_exception + pybytes"
  close_result :: "py_exception option"

text \<open>The statements inside \<open>try\<close>, up to and including \<open>sock.close()\<close>.\<close>

definition socket_exchange :: "HL7Simulator \<Rightarrow> net_env \<Rightarrow> pybytes \<Rightarrow> py_exception + pybytes" where
  "socket_exchange self net message =
     (case socket_result net of
        Some e \<Rightarrow> Inl e
      | None \<Rightarrow>
     (case connect_result net (host self, port self) of
        Some e \<Rightarrow> Inl e
      | None \<Rightarrow>
     (case send_result net message of
        Some e \<Rightarrow> Inl e
      | None \<Rightarrow>
     (case recv_result net of
        Inl e \<Rightarrow> Inl e
      | Inr response \<Rightarrow>
     (case close_result net of
        Some e \<Rightarrow> Inl e
      | None \<Rightarrow> Inr response)))))"

text \<open>
  \<open>except Exception as e: return False, str(e)\<close> catches instances of \<open>Exception\<close>;
  anything else leaves the function (\<open>Inl\<close>).
\<close>

definition send_message ::
  "HL7Simulator \<Rightarrow> net_env \<Rightarrow> pybytes \<Rightarrow> py_exception + (bool \<times> pystr)" where
  "send_message self net message =
     (case socket_exchange self net message of
        Inr response \<Rightarrow> Inr (True, decode_utf8_ignore response)
      | Inl e \<Rightarrow> if isinstance_Exception (fst e) then Inr (False, snd e) else Inl e)"

subsection \<open>\<open>send_test_appointment\<close> and \<open>run_demo_scenario\<close>\<close>

text \<open>
  What the world hands to one call of \<open>send_test_appointment\<close>: the draws behind the two
  \<open>random.choice\<close> calls (each made only when the argument is falsy), the environment of
  the builder and the network. Printing and sleeping are left out; the result is the new
  simulator state, the messages passed to \<open>send_message\<close> (at most one), and either the
  exception that left the function or the value returned.
\<close>

record send_env =
  pick_name :: nat
  pick_modality :: nat
  build :: call_env
  net :: net_env

definition names :: "pystr list" where
  "names = [lit ''John Doe'', lit ''Jane Smith'', lit ''Robert Johnson'',
            lit ''Mary Williams'', lit ''David Brown'']"

definition modalities :: "pystr list" where
  "modalities = [lit ''MRI'', lit ''CT'', lit ''XRAY'', lit ''US'']"

definition send_test_appointment ::
  "HL7Simulator \<Rightarrow> send_env \<Rightarrow> pystr option \<Rightarrow> pystr option
     \<Rightarrow> HL7Simulator \<times> pybytes list \<times> (exc_class + bool)" where
  "send_test_appointment self env patient_name modality =
     (let patient_name' =
            (case patient_name of
               None \<Rightarrow> choice names (pick_name env)
             | Some n \<Rightarrow> if n = [] then choice names (pick_name env) else n);
          modality' =
            (case modality of
               None \<Rightarrow> choice modalities (pick_modality env)
             | Some m \<Rightarrow> if m = [] then choice modalities (pick_modality env) else m);
          created = create_hl7_message self (build env) patient_name' None modality'
      in case snd created of
           Inl e \<Rightarrow> (fst created, [], Inl e)
         | Inr message \<Rightarrow>
             (case send_message (fst created) (net env) message of
                Inl e \<Rightarrow> (fst created, [message], Inl (fst e))
              | Inr r \<Rightarrow> (fst created, [message], Inr (fst r))))"

text \<open>
  \<open>for i in range(n): self.send_test_appointment()\<close>, from iteration \<open>i\<close> on; \<open>world i\<close>
  is the environment of iteration \<open>i\<close>. An exception leaving a call ends the loop.
\<close>

fun send_loop ::
  "nat \<Rightarrow> nat \<Rightarrow> (nat \<Rightarrow> send_env) \<Rightarrow> HL7Simulator
     \<Rightarrow> HL7Simulator \<times> pybytes list \<times> exc_class option" where
  "send_loop 0 i world self = (self, [], None)"
| "send_loop (Suc n) i world self =
     (case send_test_appointment self (world i) None None of
        (self', sent, Inl e) \<Rightarrow> (self', sent, Some e)
      | (self', sent, Inr ok) \<Rightarrow>
          (case send_loop n (Suc i) world self' of
             (self'', sent', r) \<Rightarrow> (self'', sent @ sent', r)))"

definition run_demo_scenario ::
  "HL7Simulator \<Rightarrow> (nat \<Rightarrow> send_env) \<Rightarrow> pystr
     \<Rightarrow> HL7Simulator \<times> pybytes list \<times> exc_class option" where
  "run_demo_scenario self world scenario =
     (if scenario = lit ''dramatic-save'' then
        (case send_test_appointment self (world 0) (Some (lit ''John Doe'')) (Some (lit ''MRI'')) of
           (self', sent, r) \<Rightarrow> (self', sent, case r of Inl e \<Rightarrow> Some e | Inr ok \<Rightarrow> None))
      else if scenario = lit ''efficiency-boost'' then send_loop 5 0 world self
      else if scenario = lit ''load-test'' then send_loop 100 0 world self
      else
        (case send_test_appointment self (world 0) None None of
           (self', sent, r) \<Rightarrow> (self', sent, case r of Inl e \<Rightarrow> Some e | Inr ok \<Rightarrow> None)))"

section \<open>Notions used to state the properties\<close>

text \<open>
  A sequence of calls on one simulator: each call is the environment it runs in and its
  three arguments; the results are collected in call order, raised exceptions included.
\<close>

type_synonym call = "call_env \<times> pystr \<times> pystr option \<times> pystr"

fun create_many :: "HL7Simulator \<Rightarrow> call list \<Rightarrow> HL7Simulator \<times> (exc_class + pybytes) list" where
  "create_many self [] = (self, [])"
| "create_many self ((env, patient_name, mrn, modality) # calls) =
     (let created = create_hl7_message self env patient_name mrn modality;
          later = create_many (fst created) calls
      in (fst later, snd created # snd later))"

text \<open>
  The appointment timestamp as the specification words it: the creation instant, which
  is the instant stamped into MSH (the first clock reading), plus two hours, to the
  minute. The program's own value is \<open>apt_timestamp\<close>, from the second reading.
\<close>

definition claimed_apt_timestamp :: "call_env \<Rightarrow> exc_class + pystr" where
  "claimed_apt_timestamp env =
     (case plus_hours (now_first env) 2 of
        Inl e \<Rightarrow> Inl e
      | Inr t \<Rightarrow> Inr (strftime_YmdHM t))"

text \<open>Strings of ASCII characters, which UTF-8 encodes one byte each.\<close>

definition ascii :: "pystr \<Rightarrow> bool" where
  "ascii s = list_all (\<lambda>c. c < 128) s"

text \<open>The day count behind \<open>minutes_since_epoch\<close>: days since 1 January of year 1.\<close>

definition day_number :: "datetime \<Rightarrow> nat" where
  "day_number t = days_before_year (year t) + days_before_month (year t) (month t) + (day t - 1)"

definition is_digit :: "nat \<Rightarrow> bool" where
  "is_digit c = (48 \<le> c \<and> c \<le> 57)"

text \<open>
  An environment in which nothing but a caught socket error can go wrong: the clock
  reading is a date-time before year 9999 (so adding two hours cannot overflow), and
  every exception the socket layer raises is an instance of \<open>Exception\<close>.
\<close>

definition caught :: "py_exception option \<Rightarrow> bool" where
  "caught r = (case r of None \<Rightarrow> True | Some e \<Rightarrow> isinstance_Exception (fst e))"

definition raises_only_Exception :: "net_env \<Rightarrow> bool" where
  "raises_only_Exception n =
     (caught (socket_result n) \<and> (\<forall>a. caught (connect_result n a)) \<and>
      (\<forall>m. caught (send_result n m)) \<and>
      (case recv_result n of Inl e \<Rightarrow> isinstance_Exception (fst e) | Inr r \<Rightarrow> True) \<and>
      caught (close_result n))"

definition undisturbed :: "send_env \<Rightarrow> bool" where
  "undisturbed env =
     (valid_datetime (now_second (build env)) \<and> year (now_second (build env)) < 9999 \<and>
      raises_only_Exception (net env))"

subsection \<open>Concrete inputs\<close>

text \<open>
  Two clock readings one microsecond apart, on either side of 10:01:00 on 1 January
  2024, and draws that give MRN 523456 and filler ID 5321.
\<close>

definition clock_100059 :: datetime where
  "clock_100059 =
     \<lparr>year = 2024, month = 1, day = 1, hour = 10, minute = 0, second = 59,
      microsecond = 999999\<rparr>"

definition clock_100100 :: datetime where
  "clock_100100 =
     \<lparr>year = 2024, month = 1, day = 1, hour = 10, minute = 1, second = 0, microsecond = 0\<rparr>"

definition env_straddle :: call_env where
  "env_straddle =
     \<lparr>rand_mrn = 423456, rand_sch = 4321, now_first = clock_100059, now_second = clock_100100\<rparr>"

text \<open>The same draws with both clock readings at 10:01:00.\<close>

definition env_same :: call_env where
  "env_same =
     \<lparr>rand_mrn = 423456, rand_sch = 4321, now_first = clock_100100, now_second = clock_100100\<rparr>"

text \<open>Three calls on one simulator; the second has a three-word name.\<close>

definition three_calls :: "call list" where
  "three_calls =
     [(env_straddle, lit ''Jane Smith'', None, lit ''CT''),
      (env_straddle, lit ''Mary Ann Smith'', None, lit ''MRI''),
      (env_straddle, lit ''Doe'', Some (lit ''MRN000042''), lit ''US'')]"

text \<open>A port nobody listens on, and a peer that answers with an invalid byte in its reply.\<close>

definition net_refused :: net_env where
  "net_refused =
     \<lparr>socket_result = None,
      connect_result = (\<lambda>a. Some (ConnectionRefusedError, lit ''[Errno 111] Connection refused'')),
      send_result = (\<lambda>m. None),
      recv_result = Inr [],
      close_result = None\<rparr>"

definition net_ack :: net_env where
  "net_ack =
     \<lparr>socket_result = None,
      connect_result = (\<lambda>a. None),
      send_result = (\<lambda>m. None),
      recv_result = Inr [0x0B, 0x4D, 0x53, 0x41, 0xFF, 0x7C, 0x41, 0x41, 0x1C, 0x0D],
      close_result = None\<rparr>"

text \<open>A peer that resets the connection on write, and one that never answers.\<close>

definition net_reset :: net_env where
  "net_reset =
     \<lparr>socket_result = None,
      connect_result = (\<lambda>a. None),
      send_result = (\<lambda>m. Some (ConnectionResetError, lit ''[Errno 104] Connection reset by peer'')),
      recv_result = Inr [],
      close_result = None\<rparr>"

definition net_timeout :: net_env where
  "net_timeout =
     \<lparr>socket_result = None,
      connect_result = (\<lambda>a. None),
      send_result = (\<lambda>m. None),
      recv_result = Inl (TimeoutError, lit ''timed out''),
      close_result = None\<rparr>"

definition world_refused :: "nat \<Rightarrow> send_env" where
  "world_refused i =
     \<lparr>pick_name = i, pick_modality = 3 * i + 1, build = env_straddle, net = net_refused\<rparr>"

section \<open>Properties\<close>

subsection \<open>What a call changes\<close>

text \<open>
  C9. A call to \<open>create_hl7_message\<close> changes only the field \<open>message_count\<close>, which
  grows by one; \<open>host\<close> and \<open>port\<close> are the same after every call, whatever the
  arguments and whether or not the call raises.
\<close>

theorem create_hl7_message_frame:
  "fst (create_hl7_message self env patient_name mrn modality)
     = self\<lparr>message_count := message_count self + 1\<rparr>
   \<and> host (fst (create_hl7_message self env patient_name mrn modality)) = host self
   \<and> port (fst (create_hl7_message self env patient_name mrn modality)) = port self
   \<and> message_count (fst (create_hl7_message self env patient_name mrn modality))
       = message_count self + 1"
  by (simp add: create_hl7_message_def Let_def)

subsection \<open>Evaluation on concrete inputs\<close>

lemma zero_pad_step: "zero_pad w ds = (if w \<le> length ds then ds else zero_pad w (48 # ds))"
  by (auto simp: zero_pad_def Suc_diff_Suc replicate_append_same not_le simp flip: replicate_Suc)

lemmas eval_defs = lit_def dec_digits.simps str_int_def format_06d_def
  randint_def randbelow_def choice_def mrn_or_random_def message_id_def timestamp_def
  apt_timestamp_def split_name_def study_code_def study_codes_def dict_get_def
  strftime_YmdHMS_def strftime_YmdHM_def plus_hours_def next_day_def days_in_month_def is_leap_def
  hl7_segments_def Let_def env_straddle_def clock_100059_def clock_100100_def

lemma encode_utf8_append:
  "encode_utf8 (xs @ ys) =
     (case encode_utf8 xs of
        Inl e \<Rightarrow> Inl e
      | Inr a \<Rightarrow> (case encode_utf8 ys of Inl e \<Rightarrow> Inl e | Inr b \<Rightarrow> Inr (a @ b)))"
  by (induction xs) (auto split: sum.splits)

lemma hl7_segments_length:
  "hl7_segments count env patient_name mrn modality = Inr segs \<Longrightarrow> length segs = 6"
  by (auto simp: hl7_segments_def Let_def split: sum.splits prod.splits)

subsection \<open>Patient names\<close>

text \<open>
  Splitting at every space gives one piece more than there are spaces, so a name unpacks
  into two pieces exactly when it has one space.
\<close>

lemma split_on_no_separator: "sep \<notin> set s \<Longrightarrow> split_on sep s = [s]"
  by (induction s) auto

lemma length_split_on: "length (split_on sep s) = Suc (count_list s sep)"
  by (induction s) (auto split: list.splits)

lemma split_on_once:
  "count_list s sep = 1 \<Longrightarrow>
   split_on sep s = [takeWhile (\<lambda>c. c \<noteq> sep) s, tl (dropWhile (\<lambda>c. c \<noteq> sep) s)]"
proof (induction s)
  case Nil
  then show ?case by simp
next
  case (Cons c cs)
  show ?case
  proof (cases "c = sep")
    case True
    with Cons.prems have "count_list cs sep = 0" by simp
    then have "sep \<notin> set cs" by (simp add: count_list_0_iff)
    with True show ?thesis by (simp add: split_on_no_separator)
  next
    case False
    with Cons.prems have "count_list cs sep = 1" by simp
    with Cons.IH False show ?thesis by simp
  qed
qed

lemma split_name_cases:
  "split_name n =
     (if 32 \<notin> set n then Inr (n, lit ''Test'')
      else if count_list n 32 = 1
        then Inr (takeWhile (\<lambda>c. c \<noteq> 32) n, tl (dropWhile (\<lambda>c. c \<noteq> 32) n))
      else Inl ValueError)"
proof (cases "32 \<in> set n")
  case False
  then show ?thesis by (simp add: split_name_def)
next
  case present: True
  then have pos: "count_list n 32 \<noteq> 0" by (simp add: count_list_0_iff)
  show ?thesis
  proof (cases "count_list n 32 = 1")
    case True
    with present show ?thesis by (simp add: split_name_def split_on_once)
  next
    case False
    with pos have "3 \<le> length (split_on 32 n)" by (simp add: length_split_on)
    then have "split_name n = Inl ValueError"
      using present by (auto simp: split_name_def split: list.splits)
    with present False show ?thesis by simp
  qed
qed

text \<open>
  C1. The builder called with \<open>("Jane Smith", None, "CT")\<close>: the AIS segment carries
  \<open>CT002^CT CHEST W CONTRAST\<close>, but the name is unpacked first piece to \<open>last_name\<close>,
  second piece to \<open>first_name\<close>, so the PID segment carries \<open>Jane^Smith\<close> and nowhere
  \<open>Smith^Jane\<close>.
\<close>

theorem jane_smith_ct_message:
  "split_name (lit ''Jane Smith'') = Inr (lit ''Jane'', lit ''Smith'')
   \<and> hl7_segments 1 env_straddle (lit ''Jane Smith'') None (lit ''CT'') =
       Inr [lit ''MSH|^~'' @ [92]
              @ lit ''&|RIS|MEMORIAL|RADSCHED|RAD|20240101100059||SIU^S12|MSG000001|P|2.5'',
            lit ''SCH||5321|||||||30|MIN|^^30^202401011201^^R||||||||||||||SCHEDULED'',
            lit ''PID|1||MRN523456||Jane^Smith||19800101|M|||123 Main St^^Boston^MA^02101||617-555-0123'',
            lit ''RGS|1|A'',
            lit ''AIS|1|A|CT002^CT CHEST W CONTRAST|202401011201'',
            lit ''AIP|1|A|RADIOLOGIST^DOE^JOHN^MD|202401011201'']
   \<and> contains (lit ''Jane^Smith'')
        (lit ''PID|1||MRN523456||Jane^Smith||19800101|M|||123 Main St^^Boston^MA^02101||617-555-0123'')
   \<and> \<not> contains (lit ''Smith^Jane'')
        (lit ''PID|1||MRN523456||Jane^Smith||19800101|M|||123 Main St^^Boston^MA^02101||617-555-0123'')
   \<and> contains (lit ''CT002^CT CHEST W CONTRAST'')
        (lit ''AIS|1|A|CT002^CT CHEST W CONTRAST|202401011201'')"
proof -
  have name: "split_name (lit ''Jane Smith'') = Inr (lit ''Jane'', lit ''Smith'')"
    by (simp add: split_name_def lit_def)
  have segs: "hl7_segments 1 env_straddle (lit ''Jane Smith'') None (lit ''CT'') =
       Inr [lit ''MSH|^~'' @ [92]
              @ lit ''&|RIS|MEMORIAL|RADSCHED|RAD|20240101100059||SIU^S12|MSG000001|P|2.5'',
            lit ''SCH||5321|||||||30|MIN|^^30^202401011201^^R||||||||||||||SCHEDULED'',
            lit ''PID|1||MRN523456||Jane^Smith||19800101|M|||123 Main St^^Boston^MA^02101||617-555-0123'',
            lit ''RGS|1|A'',
            lit ''AIS|1|A|CT002^CT CHEST W CONTRAST|202401011201'',
            lit ''AIP|1|A|RADIOLOGIST^DOE^JOHN^MD|202401011201'']"
    by (simp add: eval_defs zero_pad_step)
  have pid: "contains (lit ''Jane^Smith'')
        (lit ''PID|1||MRN523456||Jane^Smith||19800101|M|||123 Main St^^Boston^MA^02101||617-555-0123'')"
    by (simp add: lit_def)
  have nopid: "\<not> contains (lit ''Smith^Jane'')
        (lit ''PID|1||MRN523456||Jane^Smith||19800101|M|||123 Main St^^Boston^MA^02101||617-555-0123'')"
    by (simp add: lit_def)
  have ais: "contains (lit ''CT002^CT CHEST W CONTRAST'')
        (lit ''AIS|1|A|CT002^CT CHEST W CONTRAST|202401011201'')"
    by (simp add: lit_def)
  from name segs pid nopid ais show ?thesis by blast
qed

text \<open>
  C2. A name without a space becomes the last name, with first name \<open>Test\<close>; a name
  with exactly one space is cut there. A name with two or more spaces is cut into three
  or more pieces, which do not unpack into \<open>(last_name, first_name)\<close>: for
  \<open>Mary Ann Smith\<close> the call raises \<open>ValueError\<close> (or, earlier, \<open>OverflowError\<close>) in
  every environment and returns no message, the counter having already been incremented.
\<close>

theorem three_word_name_raises:
  "split_name n =
     (if 32 \<notin> set n then Inr (n, lit ''Test'')
      else if count_list n 32 = 1
        then Inr (takeWhile (\<lambda>c. c \<noteq> 32) n, tl (dropWhile (\<lambda>c. c \<noteq> 32) n))
      else Inl ValueError)
   \<and> count_list (lit ''Mary Ann Smith'') 32 = 2
   \<and> split_on 32 (lit ''Mary Ann Smith'') = [lit ''Mary'', lit ''Ann'', lit ''Smith'']
   \<and> split_name (lit ''Mary Ann Smith'') = Inl ValueError
   \<and> isl (snd (create_hl7_message self env (lit ''Mary Ann Smith'') mrn modality))
   \<and> create_hl7_message (init (lit ''localhost'') 8661) env_straddle (lit ''Mary Ann Smith'')
         None (lit ''CT'')
       = (\<lparr>host = lit ''localhost'', port = 8661, message_count = 1\<rparr>, Inl ValueError)"
proof -
  have parts: "split_on 32 (lit ''Mary Ann Smith'') = [lit ''Mary'', lit ''Ann'', lit ''Smith'']"
    by (simp add: lit_def)
  have name: "split_name (lit ''Mary Ann Smith'') = Inl ValueError"
    by (simp add: split_name_def lit_def)
  have segs: "isl (hl7_segments c e (lit ''Mary Ann Smith'') m md)" for c e m md
    by (simp add: hl7_segments_def Let_def name split: sum.splits)
  have every: "isl (snd (create_hl7_message self env (lit ''Mary Ann Smith'') mrn modality))"
    using segs [of "message_count self + 1" env mrn modality]
    by (auto simp: create_hl7_message_def Let_def split: sum.splits)
  have "apt_timestamp env_straddle = Inr (lit ''202401011201'')"
    by (simp add: eval_defs zero_pad_step)
  then have "hl7_segments 1 env_straddle (lit ''Mary Ann Smith'') None (lit ''CT'') = Inl ValueError"
    by (simp add: hl7_segments_def Let_def name)
  then have one: "create_hl7_message (init (lit ''localhost'') 8661) env_straddle
         (lit ''Mary Ann Smith'') None (lit ''CT'')
       = (\<lparr>host = lit ''localhost'', port = 8661, message_count = 1\<rparr>, Inl ValueError)"
    by (simp add: create_hl7_message_def init_def Let_def)
  have spaces: "count_list (lit ''Mary Ann Smith'') 32 = 2"
    by (simp add: lit_def)
  from split_name_cases [of n] spaces parts name every one show ?thesis by blast
qed

subsection \<open>Framing\<close>

text \<open>The frame characters are ASCII, so they encode to themselves around the payload.\<close>

lemma encode_utf8_frame:
  "encode_utf8 ([11] @ s @ [28, 13]) =
     (case encode_utf8 s of Inl e \<Rightarrow> Inl e | Inr p \<Rightarrow> Inr ([0x0B] @ p @ [0x1C, 0x0D]))"
proof -
  have start: "encode_utf8 [11] = Inr [0x0B]" and stop: "encode_utf8 [28, 13] = Inr [0x1C, 0x0D]"
    by (simp_all add: utf8_char_def)
  show ?thesis
    unfolding encode_utf8_append start stop by (simp split: sum.splits)
qed

lemma encode_utf8_ascii:
  "list_all (\<lambda>c. c < 128) s \<Longrightarrow> encode_utf8 s = Inr (map of_nat s)"
  by (induction s) (auto simp: utf8_char_def)

lemma create_hl7_message_cases:
  "snd (create_hl7_message self env patient_name mrn modality) =
     (case hl7_segments (message_count self + 1) env patient_name mrn modality of
        Inl e \<Rightarrow> Inl e
      | Inr segments \<Rightarrow>
          (case encode_utf8 (join [13] segments) of
             Inl e \<Rightarrow> Inl e
           | Inr p \<Rightarrow> Inr ([0x0B] @ p @ [0x1C, 0x0D])))"
  unfolding create_hl7_message_def Let_def snd_conv encode_utf8_frame by simp

text \<open>
  C5. Whenever \<open>create_hl7_message\<close> returns bytes, they are the byte 0x0B, then the
  UTF-8 encoding of the six segments joined by carriage returns, then the bytes 0x1C
  0x0D: the first byte is 0x0B and the last two are 0x1C 0x0D.
\<close>

theorem mllp_framing:
  assumes "snd (create_hl7_message self env patient_name mrn modality) = Inr bs"
  shows "\<exists>segments payload.
           hl7_segments (message_count self + 1) env patient_name mrn modality = Inr segments
           \<and> length segments = 6
           \<and> encode_utf8 (join [13] segments) = Inr payload
           \<and> bs = [0x0B] @ payload @ [0x1C, 0x0D]
           \<and> hd bs = 0x0B
           \<and> drop (length bs - 2) bs = [0x1C, 0x0D]"
proof -
  from assms obtain segments payload where
    segs: "hl7_segments (message_count self + 1) env patient_name mrn modality = Inr segments"
    and pay: "encode_utf8 (join [13] segments) = Inr payload"
    and bs: "bs = [0x0B] @ payload @ [0x1C, 0x0D]"
    unfolding create_hl7_message_cases by (auto split: sum.splits)
  from bs have "hd bs = 0x0B" and "drop (length bs - 2) bs = [0x1C, 0x0D]"
    by simp_all
  with segs pay bs hl7_segments_length [OF segs] show ?thesis by blast
qed

theorem mllp_framing_witness:
  "snd (create_hl7_message (init (lit ''localhost'') 8661) env_straddle (lit ''Jane Smith'') None
          (lit ''CT''))
     = Inr ([0x0B] @ map of_nat (join [13]
         [lit ''MSH|^~'' @ [92]
            @ lit ''&|RIS|MEMORIAL|RADSCHED|RAD|20240101100059||SIU^S12|MSG000001|P|2.5'',
          lit ''SCH||5321|||||||30|MIN|^^30^202401011201^^R||||||||||||||SCHEDULED'',
          lit ''PID|1||MRN523456||Jane^Smith||19800101|M|||123 Main St^^Boston^MA^02101||617-555-0123'',
          lit ''RGS|1|A'',
          lit ''AIS|1|A|CT002^CT CHEST W CONTRAST|202401011201'',
          lit ''AIP|1|A|RADIOLOGIST^DOE^JOHN^MD|202401011201'']) @ [0x1C, 0x0D])
   \<and> (\<exists>segments payload.
         hl7_segments 1 env_straddle (lit ''Jane Smith'') None (lit ''CT'') = Inr segments
         \<and> length segments = 6
         \<and> encode_utf8 (join [13] segments) = Inr payload
         \<and> hd ([0x0B] @ payload @ [0x1C, 0x0D]) = (0x0B :: byte)
         \<and> [0x0B] @ payload @ [0x1C, 0x0D] = [0x0B] @ map of_nat (join [13]
         [lit ''MSH|^~'' @ [92]
            @ lit ''&|RIS|MEMORIAL|RADSCHED|RAD|20240101100059||SIU^S12|MSG000001|P|2.5'',
          lit ''SCH||5321|||||||30|MIN|^^30^202401011201^^R||||||||||||||SCHEDULED'',
          lit ''PID|1||MRN523456||Jane^Smith||19800101|M|||123 Main St^^Boston^MA^02101||617-555-0123'',
          lit ''RGS|1|A'',
          lit ''AIS|1|A|CT002^CT CHEST W CONTRAST|202401011201'',
          lit ''AIP|1|A|RADIOLOGIST^DOE^JOHN^MD|202401011201'']) @ [0x1C, 0x0D])"
  (is "?run = Inr ?bytes \<and> ?shape")
proof -
  have segs: "hl7_segments (message_count (init (lit ''localhost'') 8661) + 1) env_straddle
                (lit ''Jane Smith'') None (lit ''CT'') =
       Inr [lit ''MSH|^~'' @ [92]
              @ lit ''&|RIS|MEMORIAL|RADSCHED|RAD|20240101100059||SIU^S12|MSG000001|P|2.5'',
            lit ''SCH||5321|||||||30|MIN|^^30^202401011201^^R||||||||||||||SCHEDULED'',
            lit ''PID|1||MRN523456||Jane^Smith||19800101|M|||123 Main St^^Boston^MA^02101||617-555-0123'',
            lit ''RGS|1|A'',
            lit ''AIS|1|A|CT002^CT CHEST W CONTRAST|202401011201'',
            lit ''AIP|1|A|RADIOLOGIST^DOE^JOHN^MD|202401011201'']"
    by (simp add: init_def eval_defs zero_pad_step)
  have run: "?run = Inr ?bytes"
    unfolding create_hl7_message_cases segs sum.case
    by (subst encode_utf8_ascii) (simp_all add: lit_def)
  from mllp_framing [OF run] run show ?thesis
    by (auto simp: init_def)
qed


subsection \<open>The study code\<close>

text \<open>
  C6. The study code is the table entry under the exact key \<open>MRI\<close>, \<open>CT\<close>, \<open>XRAY\<close> or
  \<open>US\<close>; every other modality string, lowercase variants included, gets the MRI entry;
  and the AIS segment carries that code.
\<close>

theorem study_code_by_modality:
  "study_code modality =
     (if modality = lit ''MRI'' then lit ''MRI001^MRI BRAIN W/O CONTRAST''
      else if modality = lit ''CT'' then lit ''CT002^CT CHEST W CONTRAST''
      else if modality = lit ''XRAY'' then lit ''XR003^CHEST XRAY 2 VIEWS''
      else if modality = lit ''US'' then lit ''US004^ABDOMINAL ULTRASOUND''
      else lit ''MRI001^MRI BRAIN W/O CONTRAST'')
   \<and> (modality \<notin> {lit ''MRI'', lit ''CT'', lit ''XRAY'', lit ''US''}
        \<longrightarrow> study_code modality = lit ''MRI001^MRI BRAIN W/O CONTRAST'')
   \<and> (hl7_segments count env patient_name mrn modality = Inr segs
        \<longrightarrow> (\<exists>apt. apt_timestamp env = Inr apt
                 \<and> segs ! 4 = lit ''AIS|1|A|'' @ study_code modality @ lit ''|'' @ apt))"
proof -
  have table: "study_code modality =
     (if modality = lit ''MRI'' then lit ''MRI001^MRI BRAIN W/O CONTRAST''
      else if modality = lit ''CT'' then lit ''CT002^CT CHEST W CONTRAST''
      else if modality = lit ''XRAY'' then lit ''XR003^CHEST XRAY 2 VIEWS''
      else if modality = lit ''US'' then lit ''US004^ABDOMINAL ULTRASOUND''
      else lit ''MRI001^MRI BRAIN W/O CONTRAST'')"
    by (simp add: study_code_def dict_get_def study_codes_def lit_def)
  have other: "modality \<notin> {lit ''MRI'', lit ''CT'', lit ''XRAY'', lit ''US''}
        \<longrightarrow> study_code modality = lit ''MRI001^MRI BRAIN W/O CONTRAST''"
    unfolding table by simp
  have ais: "hl7_segments count env patient_name mrn modality = Inr segs
        \<longrightarrow> (\<exists>apt. apt_timestamp env = Inr apt
                 \<and> segs ! 4 = lit ''AIS|1|A|'' @ study_code modality @ lit ''|'' @ apt)"
    by (auto simp: hl7_segments_def Let_def split: sum.splits prod.splits)
  from table other ais show ?thesis by blast
qed

theorem study_code_by_modality_witness:
  "lit ''ct'' \<notin> {lit ''MRI'', lit ''CT'', lit ''XRAY'', lit ''US''}
   \<and> study_code (lit ''ct'') = lit ''MRI001^MRI BRAIN W/O CONTRAST''
   \<and> study_code (lit ''CT'') = lit ''CT002^CT CHEST W CONTRAST''
   \<and> hl7_segments 7 env_straddle (lit ''Jane Smith'') None (lit ''ct'') =
       Inr [lit ''MSH|^~'' @ [92]
              @ lit ''&|RIS|MEMORIAL|RADSCHED|RAD|20240101100059||SIU^S12|MSG000007|P|2.5'',
            lit ''SCH||5321|||||||30|MIN|^^30^202401011201^^R||||||||||||||SCHEDULED'',
            lit ''PID|1||MRN523456||Jane^Smith||19800101|M|||123 Main St^^Boston^MA^02101||617-555-0123'',
            lit ''RGS|1|A'',
            lit ''AIS|1|A|MRI001^MRI BRAIN W/O CONTRAST|202401011201'',
            lit ''AIP|1|A|RADIOLOGIST^DOE^JOHN^MD|202401011201'']
   \<and> (\<exists>apt. apt_timestamp env_straddle = Inr apt
          \<and> lit ''AIS|1|A|MRI001^MRI BRAIN W/O CONTRAST|202401011201''
              = lit ''AIS|1|A|'' @ study_code (lit ''ct'') @ lit ''|'' @ apt)"
proof -
  let ?segs = "[lit ''MSH|^~'' @ [92]
              @ lit ''&|RIS|MEMORIAL|RADSCHED|RAD|20240101100059||SIU^S12|MSG000007|P|2.5'',
            lit ''SCH||5321|||||||30|MIN|^^30^202401011201^^R||||||||||||||SCHEDULED'',
            lit ''PID|1||MRN523456||Jane^Smith||19800101|M|||123 Main St^^Boston^MA^02101||617-555-0123'',
            lit ''RGS|1|A'',
            lit ''AIS|1|A|MRI001^MRI BRAIN W/O CONTRAST|202401011201'',
            lit ''AIP|1|A|RADIOLOGIST^DOE^JOHN^MD|202401011201'']"
  have notin: "lit ''ct'' \<notin> {lit ''MRI'', lit ''CT'', lit ''XRAY'', lit ''US''}"
    by (simp add: lit_def)
  have segs: "hl7_segments 7 env_straddle (lit ''Jane Smith'') None (lit ''ct'') = Inr ?segs"
    by (simp add: eval_defs zero_pad_step)
  have ct: "study_code (lit ''CT'') = lit ''CT002^CT CHEST W CONTRAST''"
    using study_code_by_modality [of "lit ''CT''"] by (simp add: lit_def)
  note inst = study_code_by_modality [of "lit ''ct''" 7 env_straddle "lit ''Jane Smith''" None ?segs]
  from inst notin have code: "study_code (lit ''ct'') = lit ''MRI001^MRI BRAIN W/O CONTRAST''"
    by blast
  from inst segs have "\<exists>apt. apt_timestamp env_straddle = Inr apt
        \<and> ?segs ! 4 = lit ''AIS|1|A|'' @ study_code (lit ''ct'') @ lit ''|'' @ apt"
    by blast
  then have ais: "\<exists>apt. apt_timestamp env_straddle = Inr apt
          \<and> lit ''AIS|1|A|MRI001^MRI BRAIN W/O CONTRAST|202401011201''
              = lit ''AIS|1|A|'' @ study_code (lit ''ct'') @ lit ''|'' @ apt"
    by simp
  from notin code ct segs ais show ?thesis by blast
qed

subsection \<open>Decimal digits\<close>

lemma dec_digits_digits: "list_all is_digit (dec_digits n)"
proof (induction n rule: dec_digits.induct)
  case (1 n)
  show ?case
  proof (cases "n < 10")
    case True
    then show ?thesis by (subst dec_digits.simps) (simp add: is_digit_def)
  next
    case False
    have "n mod 10 < 10" by simp
    then have "is_digit (48 + n mod 10)" unfolding is_digit_def by linarith
    with False 1 show ?thesis by (subst dec_digits.simps) simp
  qed
qed

lemma dec_digits_length: "10 ^ k \<le> n \<Longrightarrow> n < 10 ^ Suc k \<Longrightarrow> length (dec_digits n) = Suc k"
proof (induction k arbitrary: n)
  case 0
  then show ?case by (subst dec_digits.simps) simp
next
  case (Suc k)
  have "(10::nat) \<le> 10 ^ Suc k" by simp
  with Suc.prems(1) have big: "\<not> n < 10" by linarith
  from Suc.prems have "10 ^ k * 10 \<le> n" and "n < 10 ^ Suc k * 10" by simp_all
  then have "10 ^ k \<le> n div 10" and "n div 10 < 10 ^ Suc k"
    by (simp_all only: less_eq_div_iff_mult_less_eq less_mult_imp_div_less zero_less_numeral)
  from Suc.IH [OF this] big show ?case by (subst dec_digits.simps) simp
qed

lemma dec_digits_length_le: "n < 10 ^ Suc k \<Longrightarrow> length (dec_digits n) \<le> Suc k"
proof (induction k arbitrary: n)
  case 0
  then show ?case by (subst dec_digits.simps) simp
next
  case (Suc k)
  show ?case
  proof (cases "n < 10")
    case True
    then show ?thesis by (subst dec_digits.simps) simp
  next
    case False
    from Suc.prems have "n < 10 ^ Suc k * 10" by simp
    then have "n div 10 < 10 ^ Suc k" by (rule less_mult_imp_div_less)
    from Suc.IH [OF this] False show ?thesis by (subst dec_digits.simps) simp
  qed
qed

lemma digits_value_snoc: "digits_value (ds @ [c]) = 10 * digits_value ds + (c - 48)"
  by (simp add: digits_value_def)

lemma digits_value_dec_digits: "digits_value (dec_digits n) = n"
proof (induction n rule: dec_digits.induct)
  case (1 n)
  show ?case
  proof (cases "n < 10")
    case True
    then show ?thesis by (subst dec_digits.simps) (simp add: digits_value_def)
  next
    case False
    with 1 show ?thesis by (subst dec_digits.simps) (simp add: digits_value_snoc)
  qed
qed

lemma digits_value_zeros: "digits_value (replicate k 48 @ ds) = digits_value ds"
  by (induction k) (simp_all add: digits_value_def)

lemma digits_value_zero_pad: "digits_value (zero_pad w (dec_digits n)) = n"
  by (simp add: zero_pad_def digits_value_zeros digits_value_dec_digits)

lemma zero_pad_digits: "list_all is_digit ds \<Longrightarrow> list_all is_digit (zero_pad w ds)"
  by (auto simp: zero_pad_def list_all_iff is_digit_def)

lemma zero_pad_length: "length ds \<le> w \<Longrightarrow> length (zero_pad w ds) = w"
  by (simp add: zero_pad_def)

lemma zero_pad_length_ge: "w \<le> length (zero_pad w ds)"
  by (simp add: zero_pad_def)

lemma randint_range: "a \<le> b \<Longrightarrow> a \<le> randint a b r \<and> randint a b r \<le> b"
proof -
  assume ab: "a \<le> b"
  then have "0 < nat (b - a + 1)" by simp
  then have "r mod nat (b - a + 1) < nat (b - a + 1)" by (rule mod_less_divisor)
  with ab show ?thesis unfolding randint_def randbelow_def by linarith
qed


subsection \<open>The medical record number\<close>

lemma six_digits:
  assumes "100000 \<le> n" and "n \<le> 999999"
  shows "length (str_int n) = 6" and "list_all is_digit (str_int n)"
proof -
  from assms have "10 ^ 5 \<le> nat n" and "nat n < 10 ^ Suc 5" by simp_all
  then have "length (dec_digits (nat n)) = Suc 5" by (rule dec_digits_length)
  with assms show "length (str_int n) = 6" by (simp add: str_int_def)
  from assms show "list_all is_digit (str_int n)" by (simp add: str_int_def dec_digits_digits)
qed

text \<open>
  C10. An empty string for \<open>mrn\<close> is falsy like \<open>None\<close>: the call does exactly what it
  does for \<open>None\<close>, the MRN is \<open>MRN\<close> followed by the six digits of an integer between
  100000 and 999999, and that is what stands in the PID segment.
\<close>

theorem empty_mrn_is_regenerated:
  "create_hl7_message self env patient_name (Some []) modality
     = create_hl7_message self env patient_name None modality
   \<and> mrn_or_random env (Some []) = lit ''MRN'' @ str_int (randint 100000 999999 (rand_mrn env))
   \<and> 100000 \<le> randint 100000 999999 (rand_mrn env)
   \<and> randint 100000 999999 (rand_mrn env) \<le> 999999
   \<and> length (str_int (randint 100000 999999 (rand_mrn env))) = 6
   \<and> list_all is_digit (str_int (randint 100000 999999 (rand_mrn env)))
   \<and> (hl7_segments count env patient_name (Some []) modality = Inr segs \<longrightarrow>
        (\<exists>last_name first_name.
           split_name patient_name = Inr (last_name, first_name)
           \<and> segs ! 2 = lit ''PID|1||'' @ lit ''MRN''
                 @ str_int (randint 100000 999999 (rand_mrn env))
                 @ lit ''||'' @ last_name @ lit ''^'' @ first_name
                 @ lit ''||19800101|M|||123 Main St^^Boston^MA^02101||617-555-0123''))"
proof -
  have same: "mrn_or_random env (Some []) = mrn_or_random env None"
    by (simp add: mrn_or_random_def)
  then have segs_same: "hl7_segments c env patient_name (Some []) modality
      = hl7_segments c env patient_name None modality" for c
    by (simp add: hl7_segments_def)
  then have call: "create_hl7_message self env patient_name (Some []) modality
     = create_hl7_message self env patient_name None modality"
    by (simp add: create_hl7_message_def)
  have mrn: "mrn_or_random env (Some []) = lit ''MRN'' @ str_int (randint 100000 999999 (rand_mrn env))"
    by (simp add: mrn_or_random_def)
  have range: "100000 \<le> randint 100000 999999 (rand_mrn env)
      \<and> randint 100000 999999 (rand_mrn env) \<le> 999999"
    by (rule randint_range) simp
  then have len: "length (str_int (randint 100000 999999 (rand_mrn env))) = 6"
    and digs: "list_all is_digit (str_int (randint 100000 999999 (rand_mrn env)))"
    by (simp_all add: six_digits)
  have pid: "hl7_segments count env patient_name (Some []) modality = Inr segs \<longrightarrow>
        (\<exists>last_name first_name.
           split_name patient_name = Inr (last_name, first_name)
           \<and> segs ! 2 = lit ''PID|1||'' @ lit ''MRN''
                 @ str_int (randint 100000 999999 (rand_mrn env))
                 @ lit ''||'' @ last_name @ lit ''^'' @ first_name
                 @ lit ''||19800101|M|||123 Main St^^Boston^MA^02101||617-555-0123'')"
    by (auto simp: hl7_segments_def Let_def mrn split: sum.splits prod.splits)
  from call mrn range len digs pid show ?thesis by blast
qed

theorem empty_mrn_is_regenerated_witness:
  "hl7_segments 1 env_straddle (lit ''Jane Smith'') (Some []) (lit ''CT'') =
       Inr [lit ''MSH|^~'' @ [92]
              @ lit ''&|RIS|MEMORIAL|RADSCHED|RAD|20240101100059||SIU^S12|MSG000001|P|2.5'',
            lit ''SCH||5321|||||||30|MIN|^^30^202401011201^^R||||||||||||||SCHEDULED'',
            lit ''PID|1||MRN523456||Jane^Smith||19800101|M|||123 Main St^^Boston^MA^02101||617-555-0123'',
            lit ''RGS|1|A'',
            lit ''AIS|1|A|CT002^CT CHEST W CONTRAST|202401011201'',
            lit ''AIP|1|A|RADIOLOGIST^DOE^JOHN^MD|202401011201'']
   \<and> list_all is_digit (str_int (randint 100000 999999 (rand_mrn env_straddle)))
   \<and> (\<exists>last_name first_name.
         split_name (lit ''Jane Smith'') = Inr (last_name, first_name)
         \<and> lit ''PID|1||MRN523456||Jane^Smith||19800101|M|||123 Main St^^Boston^MA^02101||617-555-0123''
             = lit ''PID|1||'' @ lit ''MRN''
                 @ str_int (randint 100000 999999 (rand_mrn env_straddle))
                 @ lit ''||'' @ last_name @ lit ''^'' @ first_name
                 @ lit ''||19800101|M|||123 Main St^^Boston^MA^02101||617-555-0123'')"
proof -
  let ?segs = "[lit ''MSH|^~'' @ [92]
              @ lit ''&|RIS|MEMORIAL|RADSCHED|RAD|20240101100059||SIU^S12|MSG000001|P|2.5'',
            lit ''SCH||5321|||||||30|MIN|^^30^202401011201^^R||||||||||||||SCHEDULED'',
            lit ''PID|1||MRN523456||Jane^Smith||19800101|M|||123 Main St^^Boston^MA^02101||617-555-0123'',
            lit ''RGS|1|A'',
            lit ''AIS|1|A|CT002^CT CHEST W CONTRAST|202401011201'',
            lit ''AIP|1|A|RADIOLOGIST^DOE^JOHN^MD|202401011201'']"
  have segs: "hl7_segments 1 env_straddle (lit ''Jane Smith'') (Some []) (lit ''CT'') = Inr ?segs"
    by (simp add: eval_defs zero_pad_step)
  note inst = empty_mrn_is_regenerated [of _ env_straddle "lit ''Jane Smith''" "lit ''CT''" 1 ?segs]
  from inst have digs: "list_all is_digit (str_int (randint 100000 999999 (rand_mrn env_straddle)))"
    by blast
  from inst segs have "\<exists>last_name first_name.
         split_name (lit ''Jane Smith'') = Inr (last_name, first_name)
         \<and> ?segs ! 2 = lit ''PID|1||'' @ lit ''MRN''
                 @ str_int (randint 100000 999999 (rand_mrn env_straddle))
                 @ lit ''||'' @ last_name @ lit ''^'' @ first_name
                 @ lit ''||19800101|M|||123 Main St^^Boston^MA^02101||617-555-0123''"
    by blast
  then have pid: "\<exists>last_name first_name.
         split_name (lit ''Jane Smith'') = Inr (last_name, first_name)
         \<and> lit ''PID|1||MRN523456||Jane^Smith||19800101|M|||123 Main St^^Boston^MA^02101||617-555-0123''
             = lit ''PID|1||'' @ lit ''MRN''
                 @ str_int (randint 100000 999999 (rand_mrn env_straddle))
                 @ lit ''||'' @ last_name @ lit ''^'' @ first_name
                 @ lit ''||19800101|M|||123 Main St^^Boston^MA^02101||617-555-0123''"
    by simp
  from segs digs pid show ?thesis by blast
qed

subsection \<open>Sequences of calls\<close>

lemma create_hl7_message_state:
  "fst (create_hl7_message self env patient_name mrn modality)
     = self\<lparr>message_count := message_count self + 1\<rparr>"
  by (simp add: create_hl7_message_def Let_def)

lemma create_hl7_message_ignores_address:
  "snd (create_hl7_message (self\<lparr>message_count := c\<rparr>) env patient_name mrn modality)
     = snd (create_hl7_message \<lparr>host = h, port = p, message_count = c\<rparr> env patient_name mrn modality)"
  by (simp add: create_hl7_message_def Let_def)

lemma create_many_count:
  "message_count (fst (create_many self calls)) = message_count self + int (length calls)"
  by (induction self calls rule: create_many.induct)
     (simp_all add: Let_def create_hl7_message_state)

lemma create_many_nth:
  "i < length calls \<Longrightarrow> calls ! i = (env, patient_name, mrn, modality) \<Longrightarrow>
   snd (create_many self calls) ! i
     = snd (create_hl7_message (self\<lparr>message_count := message_count self + int i\<rparr>)
              env patient_name mrn modality)"
proof (induction self calls arbitrary: i rule: create_many.induct)
  case (1 self)
  then show ?case by simp
next
  case (2 self e n m md calls)
  show ?case
  proof (cases i)
    case 0
    with "2.prems" show ?thesis by (simp add: Let_def)
  next
    case (Suc j)
    with "2.prems" have "j < length calls" and "calls ! j = (env, patient_name, mrn, modality)"
      by simp_all
    from "2.IH" [OF refl this]
    show ?thesis
      using Suc by (simp add: Let_def create_hl7_message_state add.assoc)
  qed
qed

lemma format_06d_nat:
  "digits_value (format_06d (int k)) = k"
  "list_all is_digit (format_06d (int k))"
  "6 \<le> length (format_06d (int k))"
  "k < 1000000 \<Longrightarrow> length (format_06d (int k)) = 6"
proof -
  show "digits_value (format_06d (int k)) = k"
    by (simp add: format_06d_def digits_value_zero_pad)
  show "list_all is_digit (format_06d (int k))"
    by (simp add: format_06d_def zero_pad_digits dec_digits_digits)
  show "6 \<le> length (format_06d (int k))"
    by (simp add: format_06d_def zero_pad_length_ge)
  assume "k < 1000000"
  then have "k < 10 ^ Suc 5" by simp
  then have "length (dec_digits k) \<le> Suc 5" by (rule dec_digits_length_le)
  then show "length (format_06d (int k)) = 6"
    by (simp add: format_06d_def zero_pad_length)
qed

lemma msh_segment:
  "hl7_segments count env patient_name mrn modality = Inr segs \<Longrightarrow>
   segs ! 0 = lit ''MSH|^~'' @ [92] @ lit ''&|RIS|MEMORIAL|RADSCHED|RAD|'' @ timestamp env
                @ lit ''||SIU^S12|'' @ message_id count @ lit ''|P|2.5''"
  by (auto simp: hl7_segments_def Let_def split: sum.splits prod.splits)

subsection \<open>Sending\<close>

text \<open>
  C7. When a socket call inside \<open>send_message\<close> raises an exception whose class derives
  from \<open>Exception\<close> (as \<open>ConnectionRefusedError\<close>, \<open>TimeoutError\<close>,
  \<open>ConnectionResetError\<close> and every other \<open>OSError\<close> do), whether at socket creation,
  connect, send, receive or close, the function returns \<open>(False, str(e))\<close>; when none
  raises it returns \<open>(True, response decoded with invalid bytes dropped)\<close>. In both
  cases nothing is raised to the caller.
\<close>

theorem send_message_reports_failures:
  "(socket_exchange self network message = Inl (cls, msg) \<and> isinstance_Exception cls
      \<longrightarrow> send_message self network message = Inr (False, msg))
   \<and> (socket_exchange self network message = Inr response
      \<longrightarrow> send_message self network message = Inr (True, decode_utf8_ignore response))
   \<and> (socket_result network = None \<and> connect_result network (host self, port self) = Some (cls, msg)
        \<and> isinstance_Exception cls
      \<longrightarrow> send_message self network message = Inr (False, msg))
   \<and> (socket_result network = None \<and> connect_result network (host self, port self) = None
        \<and> send_result network message = Some (cls, msg) \<and> isinstance_Exception cls
      \<longrightarrow> send_message self network message = Inr (False, msg))
   \<and> (socket_result network = None \<and> connect_result network (host self, port self) = None
        \<and> send_result network message = None \<and> recv_result network = Inl (cls, msg)
        \<and> isinstance_Exception cls
      \<longrightarrow> send_message self network message = Inr (False, msg))
   \<and> (socket_result network = None \<and> connect_result network (host self, port self) = None
        \<and> send_result network message = None \<and> recv_result network = Inr response
        \<and> close_result network = None
      \<longrightarrow> send_message self network message = Inr (True, decode_utf8_ignore response))
   \<and> isinstance_Exception ConnectionRefusedError \<and> isinstance_Exception TimeoutError
   \<and> isinstance_Exception ConnectionResetError \<and> isinstance_Exception OSError
   \<and> (raises_only_Exception network \<longrightarrow> (\<exists>ok text. send_message self network message = Inr (ok, text)))"
proof -
  have only: "raises_only_Exception network \<longrightarrow> (\<exists>ok text. send_message self network message = Inr (ok, text))"
  proof
    assume r: "raises_only_Exception network"
    then have "caught (socket_result network)"
      and "caught (connect_result network (host self, port self))"
      and "caught (send_result network message)"
      and "case recv_result network of Inl e \<Rightarrow> isinstance_Exception (fst e) | Inr r \<Rightarrow> True"
      and "caught (close_result network)"
      by (simp_all add: raises_only_Exception_def)
    then show "\<exists>ok text. send_message self network message = Inr (ok, text)"
      by (auto simp: send_message_def socket_exchange_def caught_def
          split: option.splits sum.splits)
  qed
  then show ?thesis
    by (simp add: send_message_def socket_exchange_def)
qed

theorem send_message_reports_failures_witness:
  "socket_result net_refused = None
   \<and> connect_result net_refused (lit ''localhost'', 8661)
       = Some (ConnectionRefusedError, lit ''[Errno 111] Connection refused'')
   \<and> isinstance_Exception ConnectionRefusedError
   \<and> send_message (init (lit ''localhost'') 8661) net_refused [0x0B, 0x1C, 0x0D]
       = Inr (False, lit ''[Errno 111] Connection refused'')
   \<and> socket_exchange (init (lit ''localhost'') 8661) net_ack [0x0B, 0x1C, 0x0D]
       = Inr [0x0B, 0x4D, 0x53, 0x41, 0xFF, 0x7C, 0x41, 0x41, 0x1C, 0x0D]
   \<and> send_message (init (lit ''localhost'') 8661) net_ack [0x0B, 0x1C, 0x0D]
       = Inr (True, [11] @ lit ''MSA|AA'' @ [28, 13])
   \<and> raises_only_Exception net_refused
   \<and> send_result net_reset [0x0B, 0x1C, 0x0D]
       = Some (ConnectionResetError, lit ''[Errno 104] Connection reset by peer'')
   \<and> isinstance_Exception ConnectionResetError
   \<and> send_message (init (lit ''localhost'') 8661) net_reset [0x0B, 0x1C, 0x0D]
       = Inr (False, lit ''[Errno 104] Connection reset by peer'')
   \<and> recv_result net_timeout = Inl (TimeoutError, lit ''timed out'')
   \<and> isinstance_Exception TimeoutError
   \<and> send_message (init (lit ''localhost'') 8661) net_timeout [0x0B, 0x1C, 0x0D]
       = Inr (False, lit ''timed out'')
   \<and> socket_exchange (init (lit ''localhost'') 8661) net_timeout [0x0B, 0x1C, 0x0D]
       = Inl (TimeoutError, lit ''timed out'')
   \<and> (\<exists>ok text. send_message (init (lit ''localhost'') 8661) net_refused [0x0B, 0x1C, 0x0D]
         = Inr (ok, text))"
proof -
  let ?sim = "init (lit ''localhost'') 8661"
  have a: "socket_result net_refused = None"
    and b: "connect_result net_refused (host ?sim, port ?sim)
       = Some (ConnectionRefusedError, lit ''[Errno 111] Connection refused'')"
    and c: "isinstance_Exception ConnectionRefusedError"
    by (simp_all add: net_refused_def)
  have d: "socket_exchange ?sim net_ack [0x0B, 0x1C, 0x0D]
       = Inr [0x0B, 0x4D, 0x53, 0x41, 0xFF, 0x7C, 0x41, 0x41, 0x1C, 0x0D]"
    by (simp add: socket_exchange_def net_ack_def)
  have e: "decode_utf8_ignore [0x0B, 0x4D, 0x53, 0x41, 0xFF, 0x7C, 0x41, 0x41, 0x1C, 0x0D]
       = [11] @ lit ''MSA|AA'' @ [28, 13]"
    by (simp add: utf8_sequence_def lit_def)
  have f: "raises_only_Exception net_refused"
    by (simp add: raises_only_Exception_def caught_def net_refused_def)
  note inst = send_message_reports_failures [of ?sim net_refused _ ConnectionRefusedError
      "lit ''[Errno 111] Connection refused''"]
  from inst a b c have refused: "send_message ?sim net_refused [0x0B, 0x1C, 0x0D]
       = Inr (False, lit ''[Errno 111] Connection refused'')"
    by blast
  from send_message_reports_failures [of ?sim net_ack "[0x0B, 0x1C, 0x0D]" _ _
      "[0x0B, 0x4D, 0x53, 0x41, 0xFF, 0x7C, 0x41, 0x41, 0x1C, 0x0D]"] d e
  have ack: "send_message ?sim net_ack [0x0B, 0x1C, 0x0D] = Inr (True, [11] @ lit ''MSA|AA'' @ [28, 13])"
    by simp
  have g: "socket_result net_reset = None" "connect_result net_reset (host ?sim, port ?sim) = None"
    "send_result net_reset [0x0B, 0x1C, 0x0D]
       = Some (ConnectionResetError, lit ''[Errno 104] Connection reset by peer'')"
    "isinstance_Exception ConnectionResetError"
    by (simp_all add: net_reset_def)
  with send_message_reports_failures [of ?sim net_reset "[0x0B, 0x1C, 0x0D]" ConnectionResetError
      "lit ''[Errno 104] Connection reset by peer''"]
  have reset: "send_message ?sim net_reset [0x0B, 0x1C, 0x0D]
       = Inr (False, lit ''[Errno 104] Connection reset by peer'')"
    by blast
  have h: "socket_result net_timeout = None" "connect_result net_timeout (host ?sim, port ?sim) = None"
    "send_result net_timeout [0x0B, 0x1C, 0x0D] = None"
    "recv_result net_timeout = Inl (TimeoutError, lit ''timed out'')"
    "isinstance_Exception TimeoutError"
    by (simp_all add: net_timeout_def)
  with send_message_reports_failures [of ?sim net_timeout "[0x0B, 0x1C, 0x0D]" TimeoutError
      "lit ''timed out''"]
  have timeout: "send_message ?sim net_timeout [0x0B, 0x1C, 0x0D] = Inr (False, lit ''timed out'')"
    by blast
  have exch: "socket_exchange ?sim net_timeout [0x0B, 0x1C, 0x0D]
       = Inl (TimeoutError, lit ''timed out'')"
    by (simp add: socket_exchange_def net_timeout_def)
  from inst f have total: "\<exists>ok text. send_message ?sim net_refused [0x0B, 0x1C, 0x0D]
         = Inr (ok, text)"
    by blast
  from a b c refused d ack f g(3,4) reset h(4,5) timeout exch total show ?thesis
    by (simp add: init_def)
qed

subsection \<open>Two hours later\<close>

lemma months_1_to_11: "[Suc 0..<12] = [1, 2, 3, 4, 5, 6, 7, 8, 9, 10, 11 :: nat]"
  by (simp add: upt_rec)

lemma days_before_december: "days_before_month y 12 = (if is_leap y then 335 else 334)"
  by (simp add: months_1_to_11 days_in_month_def)

lemma days_before_next_month:
  "1 \<le> m \<Longrightarrow> days_before_month y (Suc m) = days_before_month y m + days_in_month y m"
  by simp

lemma mod_chain:
  "(n::nat) mod 400 = 0 \<Longrightarrow> n mod 100 = 0" "(n::nat) mod 100 = 0 \<Longrightarrow> n mod 4 = 0"
proof -
  have "(100::nat) dvd 400" and "(4::nat) dvd 100" by simp_all
  then show "n mod 400 = 0 \<Longrightarrow> n mod 100 = 0" and "n mod 100 = 0 \<Longrightarrow> n mod 4 = 0"
    by (auto simp only: mod_eq_0_iff_dvd dest: dvd_trans)
qed

lemma div_order: "(n::nat) div 100 \<le> n div 4"
  by (rule div_le_mono2) simp_all

lemma days_before_next_year:
  "days_before_year (Suc (Suc z)) = days_before_year (Suc z) + (if is_leap (Suc z) then 366 else 365)"
proof -
  define a b c where "a = z div 4" and "b = z div 100" and "c = z div 400"
  define a' b' c' where "a' = Suc z div 4" and "b' = Suc z div 100" and "c' = Suc z div 400"
  have le: "b \<le> a" "b' \<le> a'"
    unfolding a_def b_def a'_def b'_def by (rule div_order)+
  have a': "a' = (if Suc z mod 4 = 0 then Suc a else a)"
    and b': "b' = (if Suc z mod 100 = 0 then Suc b else b)"
    and c': "c' = (if Suc z mod 400 = 0 then Suc c else c)"
    unfolding a_def b_def c_def a'_def b'_def c'_def by (rule div_Suc)+
  have lhs: "days_before_year (Suc (Suc z)) = 365 * Suc z + a' - b' + c'"
    and rhs: "days_before_year (Suc z) = 365 * z + a - b + c"
    by (simp_all add: days_before_year_def a_def b_def c_def a'_def b'_def c'_def)
  show ?thesis
  proof (cases "Suc z mod 4 = 0")
    case False
    with mod_chain(2) [of "Suc z"] have h: "Suc z mod 100 \<noteq> 0" by auto
    with mod_chain(1) [of "Suc z"] have "Suc z mod 400 \<noteq> 0" by auto
    with False h le show ?thesis
      unfolding lhs rhs is_leap_def a' b' c' by simp
  next
    case four: True
    show ?thesis
    proof (cases "Suc z mod 100 = 0")
      case False
      with mod_chain(1) [of "Suc z"] have "Suc z mod 400 \<noteq> 0" by auto
      with four False le show ?thesis
        unfolding lhs rhs is_leap_def a' b' c' by simp
    next
      case hundred: True
      show ?thesis
      proof (cases "Suc z mod 400 = 0")
        case True
        with four hundred le show ?thesis
          unfolding lhs rhs is_leap_def a' b' c' by simp
      next
        case False
        with four hundred le show ?thesis
          unfolding lhs rhs is_leap_def a' b' c' by simp
      qed
    qed
  qed
qed


lemma day_number_next_day:
  assumes "valid_datetime t"
  shows "day_number (next_day t) = day_number t + 1"
proof -
  from assms have y: "1 \<le> year t" and m: "1 \<le> month t" "month t \<le> 12"
    and d: "1 \<le> day t" "day t \<le> days_in_month (year t) (month t)"
    by (simp_all add: valid_datetime_def)
  show ?thesis
  proof (cases "day t < days_in_month (year t) (month t)")
    case True
    with d show ?thesis by (simp add: next_day_def day_number_def)
  next
    case last: False
    with d have day: "day t = days_in_month (year t) (month t)" by simp
    show ?thesis
    proof (cases "month t < 12")
      case True
      have "days_before_month (year t) (Suc (month t))
          = days_before_month (year t) (month t) + days_in_month (year t) (month t)"
        using m(1) by (rule days_before_next_month)
      with last True d day show ?thesis
        by (simp add: next_day_def day_number_def del: days_before_month.simps)
    next
      case False
      with m have dec: "month t = 12" by simp
      from y obtain z where z: "year t = Suc z" by (cases "year t") simp_all
      have jan: "days_before_month y (Suc 0) = 0" for y by simp
      from dec day have d31: "day t = 31" by (simp add: days_in_month_def)
      from last False dec have nd: "next_day t = t\<lparr>year := year t + 1, month := 1, day := 1\<rparr>"
        by (simp add: next_day_def)
      show ?thesis
        unfolding nd day_number_def
        using dec d31 z days_before_next_year [of z] days_before_december [of "Suc z"] jan
        by (simp del: days_before_month.simps)
    qed
  qed
qed

lemma days_in_month_pos: "1 \<le> days_in_month y m"
  by (simp add: days_in_month_def)

lemma valid_next_day:
  assumes v: "valid_datetime t" and yr: "year (next_day t) \<le> 9999"
  shows "valid_datetime (next_day t)"
proof (cases "day t < days_in_month (year t) (month t)")
  case True
  then have "next_day t = t\<lparr>day := day t + 1\<rparr>" by (simp add: next_day_def)
  with True v show ?thesis by (simp add: valid_datetime_def)
next
  case last: False
  show ?thesis
  proof (cases "month t < 12")
    case True
    with last have "next_day t = t\<lparr>month := month t + 1, day := 1\<rparr>" by (simp add: next_day_def)
    with True v days_in_month_pos [of "year t" "month t + 1"] show ?thesis
      by (simp add: valid_datetime_def)
  next
    case False
    with last have nd: "next_day t = t\<lparr>year := year t + 1, month := 1, day := 1\<rparr>"
      by (simp add: next_day_def)
    with yr have "year t + 1 \<le> 9999" by simp
    with v days_in_month_pos [of "year t + 1" 1] show ?thesis
      by (simp add: nd valid_datetime_def)
  qed
qed

lemma plus_two_hours:
  assumes "valid_datetime t"
  shows "plus_hours t 2 =
           (if hour t < 22 then Inr (t\<lparr>hour := hour t + 2\<rparr>)
            else if year (next_day t) > 9999 then Inl OverflowError
            else Inr ((next_day t)\<lparr>hour := hour t - 22\<rparr>))"
proof (cases "hour t < 22")
  case True
  then have "(hour t + 2) div 24 = 0" and "(hour t + 2) mod 24 = hour t + 2" by simp_all
  with True assms show ?thesis
    by (simp add: plus_hours_def Let_def valid_datetime_def)
next
  case False
  from assms have "hour t < 24" by (simp add: valid_datetime_def)
  with False have "hour t = 22 \<or> hour t = 23" by linarith
  then have "(hour t + 2) div 24 = 1" and "(hour t + 2) mod 24 = hour t - 22"
    by auto
  with False show ?thesis
    by (simp add: plus_hours_def Let_def)
qed

lemma plus_two_hours_result:
  assumes v: "valid_datetime t" and r: "plus_hours t 2 = Inr t'"
  shows "valid_datetime t' \<and> minutes_since_epoch t' = minutes_since_epoch t + 120
        \<and> second t' = second t \<and> microsecond t' = microsecond t"
proof (cases "hour t < 22")
  case True
  with v r have "t' = t\<lparr>hour := hour t + 2\<rparr>" by (simp add: plus_two_hours)
  with True v show ?thesis
    by (simp add: valid_datetime_def minutes_since_epoch_def)
next
  case False
  have mse: "minutes_since_epoch u = (day_number u * 24 + hour u) * 60 + minute u" for u
    by (simp add: minutes_since_epoch_def day_number_def)
  from False v r have yr: "year (next_day t) \<le> 9999"
    and t': "t' = (next_day t)\<lparr>hour := hour t - 22\<rparr>"
    by (simp_all add: plus_two_hours split: if_splits)
  from v have h: "hour t < 24" by (simp add: valid_datetime_def)
  from valid_next_day [OF v yr] h have valid: "valid_datetime t'"
    by (simp add: t' valid_datetime_def)
  have same: "minute (next_day t) = minute t" "second (next_day t) = second t"
    "microsecond (next_day t) = microsecond t"
    by (simp_all add: next_day_def)
  have "day_number t' = day_number (next_day t)"
    by (simp add: t' day_number_def)
  with day_number_next_day [OF v] have dn: "day_number t' = day_number t + 1" by simp
  have "hour t' = hour t - 22" "minute t' = minute t" "second t' = second t"
    "microsecond t' = microsecond t"
    by (simp_all add: t' same)
  with valid dn False h show ?thesis
    unfolding mse by simp
qed


subsection \<open>The shape of a timestamp\<close>

lemma padded_length:
  "n < 10000 \<Longrightarrow> length (zero_pad 4 (dec_digits n)) = 4"
  "n < 100 \<Longrightarrow> length (zero_pad 2 (dec_digits n)) = 2"
proof -
  assume "n < 10000"
  then have "n < 10 ^ Suc 3" by simp
  then have "length (dec_digits n) \<le> Suc 3" by (rule dec_digits_length_le)
  then show "length (zero_pad 4 (dec_digits n)) = 4" by (simp add: zero_pad_length)
next
  assume "n < 100"
  then have "n < 10 ^ Suc 1" by simp
  then have "length (dec_digits n) \<le> Suc 1" by (rule dec_digits_length_le)
  then show "length (zero_pad 2 (dec_digits n)) = 2" by (simp add: zero_pad_length)
qed

lemma padded_digits: "list_all is_digit (zero_pad w (dec_digits n))"
  by (simp add: zero_pad_digits dec_digits_digits)

lemma strftime_YmdHM_shape:
  assumes "valid_datetime t"
  shows "length (strftime_YmdHM t) = 12 \<and> list_all is_digit (strftime_YmdHM t)
    \<and> digits_value (take 4 (strftime_YmdHM t)) = year t
    \<and> digits_value (take 2 (drop 4 (strftime_YmdHM t))) = month t
    \<and> digits_value (take 2 (drop 6 (strftime_YmdHM t))) = day t
    \<and> digits_value (take 2 (drop 8 (strftime_YmdHM t))) = hour t
    \<and> digits_value (drop 10 (strftime_YmdHM t)) = minute t"
proof -
  define Y where "Y = zero_pad 4 (dec_digits (year t))"
  define M where "M = zero_pad 2 (dec_digits (month t))"
  define D where "D = zero_pad 2 (dec_digits (day t))"
  define H where "H = zero_pad 2 (dec_digits (hour t))"
  define N where "N = zero_pad 2 (dec_digits (minute t))"
  have "days_in_month (year t) (month t) \<le> 31" by (simp add: days_in_month_def)
  with assms have "year t < 10000" "month t < 100" "day t < 100" "hour t < 100" "minute t < 100"
    by (simp_all add: valid_datetime_def)
  then have len: "length Y = 4" "length M = 2" "length D = 2" "length H = 2" "length N = 2"
    unfolding Y_def M_def D_def H_def N_def by (simp_all add: padded_length)
  have dig: "list_all is_digit Y" "list_all is_digit M" "list_all is_digit D"
    "list_all is_digit H" "list_all is_digit N"
    unfolding Y_def M_def D_def H_def N_def by (rule padded_digits)+
  have val: "digits_value Y = year t" "digits_value M = month t" "digits_value D = day t"
    "digits_value H = hour t" "digits_value N = minute t"
    unfolding Y_def M_def D_def H_def N_def by (rule digits_value_zero_pad)+
  have s: "strftime_YmdHM t = Y @ M @ D @ H @ N"
    by (simp add: strftime_YmdHM_def Y_def M_def D_def H_def N_def)
  show ?thesis
    unfolding s using len dig val by simp
qed


text \<open>
  C3, as stated, at two clock readings on either side of a minute boundary: MSH is
  stamped 10:00:59, so the creation instant plus 120 minutes is 12:00, but SCH, AIS and
  AIP carry 12:01, two hours after the second reading.
\<close>

theorem appointment_timestamp_counterexample:
  "hl7_segments 1 env_straddle (lit ''Jane Smith'') None (lit ''CT'') =
       Inr [lit ''MSH|^~'' @ [92]
              @ lit ''&|RIS|MEMORIAL|RADSCHED|RAD|20240101100059||SIU^S12|MSG000001|P|2.5'',
            lit ''SCH||5321|||||||30|MIN|^^30^202401011201^^R||||||||||||||SCHEDULED'',
            lit ''PID|1||MRN523456||Jane^Smith||19800101|M|||123 Main St^^Boston^MA^02101||617-555-0123'',
            lit ''RGS|1|A'',
            lit ''AIS|1|A|CT002^CT CHEST W CONTRAST|202401011201'',
            lit ''AIP|1|A|RADIOLOGIST^DOE^JOHN^MD|202401011201'']
   \<and> timestamp env_straddle = lit ''20240101100059''
   \<and> apt_timestamp env_straddle = Inr (lit ''202401011201'')
   \<and> claimed_apt_timestamp env_straddle = Inr (lit ''202401011200'')
   \<and> apt_timestamp env_straddle \<noteq> claimed_apt_timestamp env_straddle"
proof -
  have segs: "hl7_segments 1 env_straddle (lit ''Jane Smith'') None (lit ''CT'') =
       Inr [lit ''MSH|^~'' @ [92]
              @ lit ''&|RIS|MEMORIAL|RADSCHED|RAD|20240101100059||SIU^S12|MSG000001|P|2.5'',
            lit ''SCH||5321|||||||30|MIN|^^30^202401011201^^R||||||||||||||SCHEDULED'',
            lit ''PID|1||MRN523456||Jane^Smith||19800101|M|||123 Main St^^Boston^MA^02101||617-555-0123'',
            lit ''RGS|1|A'',
            lit ''AIS|1|A|CT002^CT CHEST W CONTRAST|202401011201'',
            lit ''AIP|1|A|RADIOLOGIST^DOE^JOHN^MD|202401011201'']"
    by (simp add: eval_defs zero_pad_step)
  have ts: "timestamp env_straddle = lit ''20240101100059''"
    by (simp add: eval_defs zero_pad_step)
  have apt: "apt_timestamp env_straddle = Inr (lit ''202401011201'')"
    by (simp add: eval_defs zero_pad_step)
  have claimed: "claimed_apt_timestamp env_straddle = Inr (lit ''202401011200'')"
    by (simp add: claimed_apt_timestamp_def eval_defs zero_pad_step)
  have "lit ''202401011201'' \<noteq> lit ''202401011200''"
    by (simp add: lit_def)
  with segs ts apt claimed show ?thesis by simp
qed

text \<open>
  C3, amended. The appointment timestamp is one string, used in SCH, AIS and AIP alike;
  it is twelve digits, year, month, day, hour and minute of the appointment time; and
  the appointment time is the call's second clock reading plus exactly 120 minutes
  (seconds and microseconds unchanged). It is the creation instant plus 120 minutes
  whenever the two readings agree. The clock reading is a date-time of year 1000 or
  later, and the call is one that returns.
\<close>

theorem appointment_timestamp:
  assumes "valid_datetime (now_second env)"
    and "1000 \<le> year (now_second env)"
    and "hl7_segments count env patient_name mrn modality = Inr segs"
  shows "\<exists>t apt.
      plus_hours (now_second env) 2 = Inr t
      \<and> minutes_since_epoch t = minutes_since_epoch (now_second env) + 120
      \<and> second t = second (now_second env) \<and> microsecond t = microsecond (now_second env)
      \<and> apt = strftime_YmdHM t \<and> apt_timestamp env = Inr apt
      \<and> length apt = 12 \<and> list_all is_digit apt
      \<and> digits_value (take 4 apt) = year t
      \<and> digits_value (take 2 (drop 4 apt)) = month t
      \<and> digits_value (take 2 (drop 6 apt)) = day t
      \<and> digits_value (take 2 (drop 8 apt)) = hour t
      \<and> digits_value (drop 10 apt) = minute t
      \<and> segs ! 1 = lit ''SCH||'' @ str_int (randint 1000 9999 (rand_sch env))
            @ lit ''|||||||30|MIN|^^30^'' @ apt @ lit ''^^R||||||||||||||SCHEDULED''
      \<and> segs ! 4 = lit ''AIS|1|A|'' @ study_code modality @ lit ''|'' @ apt
      \<and> segs ! 5 = lit ''AIP|1|A|RADIOLOGIST^DOE^JOHN^MD|'' @ apt
      \<and> (now_first env = now_second env \<longrightarrow> claimed_apt_timestamp env = Inr apt)"
proof -
  from assms(3) obtain apt where apt: "apt_timestamp env = Inr apt"
    and sch: "segs ! 1 = lit ''SCH||'' @ str_int (randint 1000 9999 (rand_sch env))
            @ lit ''|||||||30|MIN|^^30^'' @ apt @ lit ''^^R||||||||||||||SCHEDULED''"
    and ais: "segs ! 4 = lit ''AIS|1|A|'' @ study_code modality @ lit ''|'' @ apt"
    and aip: "segs ! 5 = lit ''AIP|1|A|RADIOLOGIST^DOE^JOHN^MD|'' @ apt"
    by (auto simp: hl7_segments_def Let_def split: sum.splits prod.splits)
  from apt obtain t where t: "plus_hours (now_second env) 2 = Inr t" and fmt: "apt = strftime_YmdHM t"
    by (auto simp: apt_timestamp_def split: sum.splits)
  note later = plus_two_hours_result [OF assms(1) t]
  then have "valid_datetime t" by simp
  note shape = strftime_YmdHM_shape [OF this]
  have same: "now_first env = now_second env \<longrightarrow> claimed_apt_timestamp env = Inr apt"
    using t fmt by (simp add: claimed_apt_timestamp_def)
  from t later fmt apt shape sch ais aip same show ?thesis by blast
qed

theorem appointment_timestamp_witness:
  "valid_datetime (now_second env_straddle)
   \<and> 1000 \<le> year (now_second env_straddle)
   \<and> minutes_since_epoch clock_100100 + 120
       = minutes_since_epoch
           \<lparr>year = 2024, month = 1, day = 1, hour = 12, minute = 1, second = 0, microsecond = 0\<rparr>
   \<and> (\<exists>segs apt.
         hl7_segments 1 env_straddle (lit ''Jane Smith'') None (lit ''CT'') = Inr segs
         \<and> apt = lit ''202401011201''
         \<and> length apt = 12
         \<and> digits_value (take 4 apt) = 2024
         \<and> digits_value (drop 10 apt) = 1
         \<and> segs ! 1 = lit ''SCH||'' @ str_int (randint 1000 9999 (rand_sch env_straddle))
               @ lit ''|||||||30|MIN|^^30^'' @ apt @ lit ''^^R||||||||||||||SCHEDULED''
         \<and> segs ! 4 = lit ''AIS|1|A|'' @ study_code (lit ''CT'') @ lit ''|'' @ apt
         \<and> segs ! 5 = lit ''AIP|1|A|RADIOLOGIST^DOE^JOHN^MD|'' @ apt)
   \<and> valid_datetime (now_second env_same)
   \<and> 1000 \<le> year (now_second env_same)
   \<and> now_first env_same = now_second env_same
   \<and> claimed_apt_timestamp env_same = Inr (lit ''202401011201'')"
proof -
  let ?t = "\<lparr>year = 2024, month = 1, day = 1, hour = 12, minute = 1, second = 0, microsecond = 0\<rparr>"
  have valid: "valid_datetime (now_second env_straddle)"
    by (simp add: valid_datetime_def env_straddle_def clock_100100_def days_in_month_def)
  have later: "1000 \<le> year (now_second env_straddle)" "1000 \<le> year (now_second env_same)"
    by (simp_all add: env_straddle_def env_same_def clock_100100_def)
  have ex: "\<exists>segs. hl7_segments 1 env_straddle (lit ''Jane Smith'') None (lit ''CT'') = Inr segs"
    by (simp add: eval_defs zero_pad_step)
  then obtain segs where
    segs: "hl7_segments 1 env_straddle (lit ''Jane Smith'') None (lit ''CT'') = Inr segs" ..
  have plus: "plus_hours (now_second env_straddle) 2 = Inr ?t"
    by (simp add: eval_defs)
  have fmt: "strftime_YmdHM ?t = lit ''202401011201''"
    by (simp add: eval_defs zero_pad_step)
  from appointment_timestamp [OF valid later(1) segs] plus fmt
  have all: "minutes_since_epoch ?t = minutes_since_epoch (now_second env_straddle) + 120
      \<and> length (lit ''202401011201'') = 12
      \<and> digits_value (take 4 (lit ''202401011201'')) = year ?t
      \<and> digits_value (drop 10 (lit ''202401011201'')) = minute ?t
      \<and> segs ! 1 = lit ''SCH||'' @ str_int (randint 1000 9999 (rand_sch env_straddle))
            @ lit ''|||||||30|MIN|^^30^'' @ lit ''202401011201'' @ lit ''^^R||||||||||||||SCHEDULED''
      \<and> segs ! 4 = lit ''AIS|1|A|'' @ study_code (lit ''CT'') @ lit ''|'' @ lit ''202401011201''
      \<and> segs ! 5 = lit ''AIP|1|A|RADIOLOGIST^DOE^JOHN^MD|'' @ lit ''202401011201''"
    by auto
  have valid': "valid_datetime (now_second env_same)"
    by (simp add: valid_datetime_def env_same_def clock_100100_def days_in_month_def)
  have equal: "now_first env_same = now_second env_same"
    by (simp add: env_same_def)
  have "\<exists>segs. hl7_segments 1 env_same (lit ''Jane Smith'') None (lit ''CT'') = Inr segs"
    by (simp add: eval_defs env_same_def zero_pad_step)
  then obtain segs' where
    segs': "hl7_segments 1 env_same (lit ''Jane Smith'') None (lit ''CT'') = Inr segs'" ..
  have plus': "plus_hours (now_second env_same) 2 = Inr ?t"
    by (simp add: eval_defs env_same_def)
  from appointment_timestamp [OF valid' later(2) segs'] equal plus' fmt
  have same: "claimed_apt_timestamp env_same = Inr (lit ''202401011201'')"
    by auto
  have "now_second env_straddle = clock_100100" by (simp add: env_straddle_def)
  with all valid segs valid' equal same later show ?thesis by auto
qed

subsection \<open>Scenarios\<close>

lemma ascii_append [simp]: "ascii (a @ b) = (ascii a \<and> ascii b)"
  by (simp add: ascii_def)

lemma ascii_Cons [simp]: "ascii (c # s) = (c < 128 \<and> ascii s)"
  by (simp add: ascii_def)

lemma ascii_digits: "list_all is_digit s \<Longrightarrow> ascii s"
  by (auto simp: ascii_def is_digit_def list_all_iff)

lemma ascii_dec_digits: "ascii (dec_digits n)"
  by (rule ascii_digits) (rule dec_digits_digits)

lemma ascii_zero_pad: "ascii (zero_pad w (dec_digits n))"
  by (rule ascii_digits) (rule padded_digits)

lemma ascii_str_int: "ascii (str_int n)"
  using ascii_dec_digits [of "nat n"] ascii_dec_digits [of "nat (- n)"]
  by (simp add: str_int_def ascii_def)

lemma ascii_format_06d: "ascii (format_06d n)"
  using ascii_zero_pad [of 6 "nat n"] ascii_zero_pad [of 5 "nat (- n)"]
  by (simp add: format_06d_def ascii_def)

lemma ascii_timestamps: "ascii (strftime_YmdHMS t)" "ascii (strftime_YmdHM t)"
  by (simp_all add: strftime_YmdHMS_def strftime_YmdHM_def ascii_zero_pad)

lemma ascii_study_code: "ascii (study_code modality)"
  by (simp add: study_code_def dict_get_def study_codes_def lit_def ascii_def)

lemma choice_in_set: "xs \<noteq> [] \<Longrightarrow> choice xs r \<in> set xs"
  by (simp add: choice_def randbelow_def)

lemma names_split:
  "n \<in> set names \<Longrightarrow> \<exists>a b. split_name n = Inr (a, b) \<and> ascii a \<and> ascii b"
  by (auto simp: names_def split_name_def lit_def ascii_def)

lemma year_next_day: "year (next_day t) \<le> year t + 1"
  by (simp add: next_day_def)

lemma apt_timestamp_ok:
  assumes "valid_datetime (now_second env)" and "year (now_second env) < 9999"
  shows "\<exists>apt. apt_timestamp env = Inr apt \<and> ascii apt"
proof -
  from assms(2) year_next_day [of "now_second env"] have "\<not> year (next_day (now_second env)) > 9999"
    by linarith
  with assms(1) have "\<exists>t. plus_hours (now_second env) 2 = Inr t"
    by (simp add: plus_two_hours)
  then obtain t where "plus_hours (now_second env) 2 = Inr t" ..
  then show ?thesis by (simp add: apt_timestamp_def ascii_timestamps)
qed

lemma hl7_segments_ascii:
  assumes apt: "apt_timestamp env = Inr apt" "ascii apt"
    and name: "split_name patient_name = Inr (a, b)" "ascii a" "ascii b"
  shows "\<exists>segs. hl7_segments count env patient_name None modality = Inr segs
           \<and> ascii (join [13] segs)"
proof -
  have lits: "ascii (lit ''MSH|^~'')" "ascii [92]" "ascii (lit ''&|RIS|MEMORIAL|RADSCHED|RAD|'')"
    "ascii (lit ''||SIU^S12|'')" "ascii (lit ''|P|2.5'')" "ascii (lit ''MSG'')"
    "ascii (lit ''SCH||'')" "ascii (lit ''|||||||30|MIN|^^30^'')"
    "ascii (lit ''^^R||||||||||||||SCHEDULED'')" "ascii (lit ''PID|1||'')" "ascii (lit ''MRN'')"
    "ascii (lit ''||'')" "ascii (lit ''^'')"
    "ascii (lit ''||19800101|M|||123 Main St^^Boston^MA^02101||617-555-0123'')"
    "ascii (lit ''RGS|1|A'')" "ascii (lit ''AIS|1|A|'')" "ascii (lit ''|'')"
    "ascii (lit ''AIP|1|A|RADIOLOGIST^DOE^JOHN^MD|'')" "ascii [13]"
    by (simp_all add: ascii_def lit_def)
  show ?thesis
    using apt name
    by (simp add: hl7_segments_def Let_def message_id_def timestamp_def mrn_or_random_def
        lits ascii_timestamps ascii_str_int ascii_format_06d ascii_study_code)
qed

lemma create_hl7_message_returns:
  assumes "valid_datetime (now_second env)" and "year (now_second env) < 9999"
    and "patient_name \<in> set names"
  shows "\<exists>message. create_hl7_message self env patient_name None modality
           = (self\<lparr>message_count := message_count self + 1\<rparr>, Inr message)"
proof -
  from apt_timestamp_ok [OF assms(1,2)] obtain apt where
    apt: "apt_timestamp env = Inr apt" "ascii apt" by blast
  from names_split [OF assms(3)] obtain a b where
    name: "split_name patient_name = Inr (a, b)" "ascii a" "ascii b" by blast
  from hl7_segments_ascii [OF apt name, of "message_count self + 1" modality] obtain segs where
    segs: "hl7_segments (message_count self + 1) env patient_name None modality = Inr segs"
    and "ascii (join [13] segs)" by blast
  then have "encode_utf8 (join [13] segs) = Inr (map of_nat (join [13] segs))"
    by (simp add: ascii_def encode_utf8_ascii)
  with segs have "\<exists>message. snd (create_hl7_message self env patient_name None modality) = Inr message"
    by (simp add: create_hl7_message_cases)
  then show ?thesis
    using create_hl7_message_state [of self env patient_name None modality]
    by (metis prod.collapse)
qed


lemma send_message_returns:
  assumes "raises_only_Exception network"
  shows "\<exists>r. send_message self network message = Inr r"
proof -
  from assms have "caught (socket_result network)"
    and "caught (connect_result network (host self, port self))"
    and "caught (send_result network message)"
    and "case recv_result network of Inl e \<Rightarrow> isinstance_Exception (fst e) | Inr r \<Rightarrow> True"
    and "caught (close_result network)"
    by (simp_all add: raises_only_Exception_def)
  then show ?thesis
    by (auto simp: send_message_def socket_exchange_def caught_def
        split: option.splits sum.splits)
qed

lemma send_test_appointment_sends:
  assumes calm: "undisturbed env"
    and pool: "(case patient_name of
                  None \<Rightarrow> choice names (pick_name env)
                | Some n \<Rightarrow> if n = [] then choice names (pick_name env) else n) \<in> set names"
  shows "\<exists>message ok. send_test_appointment self env patient_name modality
           = (self\<lparr>message_count := message_count self + 1\<rparr>, [message], Inr ok)"
proof -
  define pn where "pn = (case patient_name of
                  None \<Rightarrow> choice names (pick_name env)
                | Some n \<Rightarrow> if n = [] then choice names (pick_name env) else n)"
  define md where "md = (case modality of
               None \<Rightarrow> choice modalities (pick_modality env)
             | Some m \<Rightarrow> if m = [] then choice modalities (pick_modality env) else m)"
  from calm have clock: "valid_datetime (now_second (build env))" "year (now_second (build env)) < 9999"
    and quiet: "raises_only_Exception (net env)"
    by (simp_all add: undisturbed_def)
  from pool have "pn \<in> set names" by (simp add: pn_def)
  from create_hl7_message_returns [OF clock this, of self md] obtain message where
    created: "create_hl7_message self (build env) pn None md
       = (self\<lparr>message_count := message_count self + 1\<rparr>, Inr message)" ..
  from send_message_returns [OF quiet] obtain r where
    "send_message (self\<lparr>message_count := message_count self + 1\<rparr>) (net env) message = Inr r" ..
  with created have "send_test_appointment self env patient_name modality
           = (self\<lparr>message_count := message_count self + 1\<rparr>, [message], Inr (fst r))"
    by (simp add: send_test_appointment_def Let_def flip: pn_def md_def)
  then show ?thesis by blast
qed

lemma random_name_in_pool: "choice names r \<in> set names"
  by (rule choice_in_set) (simp add: names_def)

lemma send_loop_completes:
  assumes "\<forall>i. undisturbed (world i)"
  shows "\<exists>self' sent. send_loop n i world self = (self', sent, None) \<and> length sent = n"
proof (induction n arbitrary: i self)
  case 0
  show ?case by simp
next
  case (Suc n)
  from assms have "undisturbed (world i)" ..
  from send_test_appointment_sends [OF this, of None self None] obtain message ok where
    one: "send_test_appointment self (world i) None None
       = (self\<lparr>message_count := message_count self + 1\<rparr>, [message], Inr ok)"
    by (auto simp: random_name_in_pool)
  from Suc.IH [of "Suc i" "self\<lparr>message_count := message_count self + 1\<rparr>"]
  obtain self' sent where
    "send_loop n (Suc i) world (self\<lparr>message_count := message_count self + 1\<rparr>)
       = (self', sent, None)" and "length sent = n"
    by blast
  with one show ?case by simp
qed

text \<open>
  C8. In an undisturbed world (valid clock before year 9999, only \<open>Exception\<close>s from the
  socket layer) every scenario runs to its end, whether the sends succeed or fail:
  \<open>load-test\<close> passes exactly 100 messages to \<open>send_message\<close>, \<open>efficiency-boost\<close>
  exactly 5, and every scenario name other than these and \<open>dramatic-save\<close> exactly one;
  \<open>dramatic-save\<close> itself is one send as well.
\<close>

theorem scenario_send_counts:
  assumes "\<forall>i. undisturbed (world i)"
  shows "(\<exists>self' sent. run_demo_scenario self world (lit ''load-test'') = (self', sent, None)
            \<and> length sent = 100)
    \<and> (\<exists>self' sent. run_demo_scenario self world (lit ''efficiency-boost'') = (self', sent, None)
            \<and> length sent = 5)
    \<and> (scenario \<notin> {lit ''dramatic-save'', lit ''efficiency-boost'', lit ''load-test''} \<longrightarrow>
         (\<exists>self' sent. run_demo_scenario self world scenario = (self', sent, None)
            \<and> length sent = 1))
    \<and> (\<exists>self' sent. run_demo_scenario self world (lit ''dramatic-save'') = (self', sent, None)
            \<and> length sent = 1)"
proof -
  have differ: "lit ''load-test'' \<noteq> lit ''dramatic-save''"
    "lit ''load-test'' \<noteq> lit ''efficiency-boost''"
    "lit ''efficiency-boost'' \<noteq> lit ''dramatic-save''"
    by (simp_all add: lit_def)
  from assms have zero: "undisturbed (world 0)" ..
  have load: "\<exists>self' sent. run_demo_scenario self world (lit ''load-test'') = (self', sent, None)
            \<and> length sent = 100"
    using send_loop_completes [OF assms, of 100 0 self]
    by (simp add: run_demo_scenario_def differ)
  have boost: "\<exists>self' sent. run_demo_scenario self world (lit ''efficiency-boost'') = (self', sent, None)
            \<and> length sent = 5"
    using send_loop_completes [OF assms, of 5 0 self]
    by (simp add: run_demo_scenario_def differ)
  have other: "scenario \<notin> {lit ''dramatic-save'', lit ''efficiency-boost'', lit ''load-test''} \<longrightarrow>
         (\<exists>self' sent. run_demo_scenario self world scenario = (self', sent, None)
            \<and> length sent = 1)"
  proof
    assume "scenario \<notin> {lit ''dramatic-save'', lit ''efficiency-boost'', lit ''load-test''}"
    moreover from send_test_appointment_sends [OF zero, of None self None] obtain message ok where
      "send_test_appointment self (world 0) None None
         = (self\<lparr>message_count := message_count self + 1\<rparr>, [message], Inr ok)"
      by (auto simp: random_name_in_pool)
    ultimately show "\<exists>self' sent. run_demo_scenario self world scenario = (self', sent, None)
            \<and> length sent = 1"
      by (simp add: run_demo_scenario_def)
  qed
  have "lit ''John Doe'' \<in> set names" "lit ''John Doe'' \<noteq> []"
    by (simp_all add: names_def lit_def)
  with send_test_appointment_sends [OF zero, of "Some (lit ''John Doe'')" self "Some (lit ''MRI'')"]
  obtain message ok where
    "send_test_appointment self (world 0) (Some (lit ''John Doe'')) (Some (lit ''MRI''))
         = (self\<lparr>message_count := message_count self + 1\<rparr>, [message], Inr ok)"
    by auto
  then have save: "\<exists>self' sent. run_demo_scenario self world (lit ''dramatic-save'') = (self', sent, None)
            \<and> length sent = 1"
    by (simp add: run_demo_scenario_def)
  from load boost other save show ?thesis by blast
qed

theorem scenario_send_counts_witness:
  "(\<forall>i. undisturbed (world_refused i))
   \<and> lit ''random'' \<notin> {lit ''dramatic-save'', lit ''efficiency-boost'', lit ''load-test''}
   \<and> length (fst (snd (run_demo_scenario (init (lit ''localhost'') 8661) world_refused
                          (lit ''load-test'')))) = 100
   \<and> length (fst (snd (run_demo_scenario (init (lit ''localhost'') 8661) world_refused
                          (lit ''efficiency-boost'')))) = 5
   \<and> length (fst (snd (run_demo_scenario (init (lit ''localhost'') 8661) world_refused
                          (lit ''random'')))) = 1"
proof -
  have calm: "\<forall>i. undisturbed (world_refused i)"
    by (simp add: undisturbed_def world_refused_def env_straddle_def clock_100100_def
        valid_datetime_def days_in_month_def raises_only_Exception_def caught_def net_refused_def)
  have other: "lit ''random'' \<notin> {lit ''dramatic-save'', lit ''efficiency-boost'', lit ''load-test''}"
    by (simp add: lit_def)
  note counts = scenario_send_counts [OF calm, of "init (lit ''localhost'') 8661" "lit ''random''"]
  from counts have "length (fst (snd (run_demo_scenario (init (lit ''localhost'') 8661)
      world_refused (lit ''load-test'')))) = 100"
    by auto
  moreover from counts have "length (fst (snd (run_demo_scenario (init (lit ''localhost'') 8661)
      world_refused (lit ''efficiency-boost'')))) = 5"
    by auto
  moreover from counts other have "length (fst (snd (run_demo_scenario
      (init (lit ''localhost'') 8661) world_refused (lit ''random'')))) = 1"
    by auto
  ultimately show ?thesis using calm other by blast
qed

subsection \<open>The control ID in the returned bytes\<close>

lemma encode_utf8_ascii_prefix:
  assumes "ascii a" and "encode_utf8 (a @ b) = Inr p"
  shows "\<exists>rest. encode_utf8 b = Inr rest \<and> p = map of_nat a @ rest"
proof -
  from assms(1) have "encode_utf8 a = Inr (map of_nat a)"
    by (simp add: ascii_def encode_utf8_ascii)
  with assms(2) show ?thesis
    by (auto simp: encode_utf8_append split: sum.splits)
qed

lemma join_first:
  assumes "length segs = 6"
  shows "join sep segs = segs ! 0 @ sep @ join sep (tl segs)"
proof -
  from assms obtain x y zs where "segs = x # y # zs"
    by (cases segs; cases "tl segs") auto
  then show ?thesis by simp
qed

lemma ascii_msh:
  "ascii (lit ''MSH|^~'' @ [92] @ lit ''&|RIS|MEMORIAL|RADSCHED|RAD|'' @ timestamp env
            @ lit ''||SIU^S12|'' @ message_id count @ lit ''|P|2.5'')"
proof -
  have lits: "ascii (lit ''MSH|^~'')" "ascii [92]" "ascii (lit ''&|RIS|MEMORIAL|RADSCHED|RAD|'')"
    "ascii (lit ''||SIU^S12|'')" "ascii (lit ''|P|2.5'')" "ascii (lit ''MSG'')"
    by (simp_all add: ascii_def lit_def)
  then show ?thesis
    by (simp add: message_id_def timestamp_def ascii_timestamps ascii_format_06d)
qed

lemma returned_bytes_start_with_msh:
  assumes "snd (create_hl7_message self env patient_name mrn modality) = Inr bs"
  shows "\<exists>segs payload rest.
      hl7_segments (message_count self + 1) env patient_name mrn modality = Inr segs
      \<and> segs ! 0 = lit ''MSH|^~'' @ [92] @ lit ''&|RIS|MEMORIAL|RADSCHED|RAD|'' @ timestamp env
            @ lit ''||SIU^S12|'' @ message_id (message_count self + 1) @ lit ''|P|2.5''
      \<and> encode_utf8 (join [13] segs) = Inr payload
      \<and> bs = [0x0B] @ payload @ [0x1C, 0x0D]
      \<and> bs = [0x0B] @ map of_nat (lit ''MSH|^~'' @ [92] @ lit ''&|RIS|MEMORIAL|RADSCHED|RAD|''
            @ timestamp env @ lit ''||SIU^S12|'' @ message_id (message_count self + 1)
            @ lit ''|P|2.5'') @ rest"
proof -
  let ?msh = "lit ''MSH|^~'' @ [92] @ lit ''&|RIS|MEMORIAL|RADSCHED|RAD|'' @ timestamp env
            @ lit ''||SIU^S12|'' @ message_id (message_count self + 1) @ lit ''|P|2.5''"
  from assms obtain segs payload where
    segs: "hl7_segments (message_count self + 1) env patient_name mrn modality = Inr segs"
    and pay: "encode_utf8 (join [13] segs) = Inr payload"
    and bs: "bs = [0x0B] @ payload @ [0x1C, 0x0D]"
    unfolding create_hl7_message_cases by (auto split: sum.splits)
  from segs have msh: "segs ! 0 = ?msh" by (rule msh_segment)
  from segs have "length segs = 6" by (rule hl7_segments_length)
  then have "join [13] segs = ?msh @ ([13] @ join [13] (tl segs))"
    using join_first [of segs "[13]"] msh by simp
  with pay have "encode_utf8 (?msh @ ([13] @ join [13] (tl segs))) = Inr payload" by simp
  from encode_utf8_ascii_prefix [OF ascii_msh this] obtain rest where
    "payload = map of_nat ?msh @ rest" by blast
  with bs have "bs = [0x0B] @ map of_nat ?msh @ (rest @ [0x1C, 0x0D])" by simp
  with segs msh pay bs show ?thesis by blast
qed

text \<open>
  C4. On a fresh simulator, whatever the calls and whether or not earlier ones raised,
  call number \<open>i + 1\<close> is \<open>create_hl7_message\<close> run with the counter at \<open>i\<close>, and the bytes
  it returns are 0x0B followed by the MSH segment whose control ID is \<open>MSG\<close> and the
  decimal digits of \<open>i + 1\<close>, zero-padded to at least six (exactly six below one million),
  one more than the call before; after the calls the counter is their number.
\<close>

theorem message_control_id_sequence:
  assumes "i < length calls" and "calls ! i = (env, patient_name, mrn, modality)"
  shows "message_count (fst (create_many (init h p) calls)) = int (length calls)
    \<and> snd (create_many (init h p) calls) ! i
        = snd (create_hl7_message \<lparr>host = h, port = p, message_count = int i\<rparr>
                 env patient_name mrn modality)
    \<and> (\<forall>bs. snd (create_many (init h p) calls) ! i = Inr bs \<longrightarrow>
          (\<exists>segs payload rest.
             hl7_segments (int (i + 1)) env patient_name mrn modality = Inr segs
             \<and> segs ! 0 = lit ''MSH|^~'' @ [92] @ lit ''&|RIS|MEMORIAL|RADSCHED|RAD|''
                   @ timestamp env @ lit ''||SIU^S12|'' @ message_id (int (i + 1))
                   @ lit ''|P|2.5''
             \<and> encode_utf8 (join [13] segs) = Inr payload
             \<and> bs = [0x0B] @ payload @ [0x1C, 0x0D]
             \<and> bs = [0x0B] @ map of_nat (lit ''MSH|^~'' @ [92]
                   @ lit ''&|RIS|MEMORIAL|RADSCHED|RAD|'' @ timestamp env @ lit ''||SIU^S12|''
                   @ lit ''MSG'' @ format_06d (int (i + 1)) @ lit ''|P|2.5'') @ rest))
    \<and> message_id (int (i + 1)) = lit ''MSG'' @ format_06d (int (i + 1))
    \<and> digits_value (format_06d (int (i + 1))) = i + 1
    \<and> digits_value (format_06d (int (i + 2))) = digits_value (format_06d (int (i + 1))) + 1
    \<and> list_all is_digit (format_06d (int (i + 1)))
    \<and> 6 \<le> length (format_06d (int (i + 1)))
    \<and> (i + 1 < 1000000 \<longrightarrow> length (format_06d (int (i + 1))) = 6)"
proof -
  let ?self = "\<lparr>host = h, port = p, message_count = int i\<rparr>"
  have count: "message_count (fst (create_many (init h p) calls)) = int (length calls)"
    by (simp add: create_many_count init_def)
  have "snd (create_many (init h p) calls) ! i
        = snd (create_hl7_message ((init h p)\<lparr>message_count := message_count (init h p) + int i\<rparr>)
                 env patient_name mrn modality)"
    using assms by (rule create_many_nth)
  then have nth: "snd (create_many (init h p) calls) ! i
        = snd (create_hl7_message ?self env patient_name mrn modality)"
    by (simp add: init_def)
  have id: "message_id (int (i + 1)) = lit ''MSG'' @ format_06d (int (i + 1))"
    by (simp add: message_id_def)
  have next_count: "message_count ?self + 1 = int (i + 1)" by simp
  have bytes: "\<forall>bs. snd (create_many (init h p) calls) ! i = Inr bs \<longrightarrow>
          (\<exists>segs payload rest.
             hl7_segments (int (i + 1)) env patient_name mrn modality = Inr segs
             \<and> segs ! 0 = lit ''MSH|^~'' @ [92] @ lit ''&|RIS|MEMORIAL|RADSCHED|RAD|''
                   @ timestamp env @ lit ''||SIU^S12|'' @ message_id (int (i + 1))
                   @ lit ''|P|2.5''
             \<and> encode_utf8 (join [13] segs) = Inr payload
             \<and> bs = [0x0B] @ payload @ [0x1C, 0x0D]
             \<and> bs = [0x0B] @ map of_nat (lit ''MSH|^~'' @ [92]
                   @ lit ''&|RIS|MEMORIAL|RADSCHED|RAD|'' @ timestamp env @ lit ''||SIU^S12|''
                   @ lit ''MSG'' @ format_06d (int (i + 1)) @ lit ''|P|2.5'') @ rest)"
  proof (intro allI impI)
    fix bs
    assume "snd (create_many (init h p) calls) ! i = Inr bs"
    with nth have "snd (create_hl7_message ?self env patient_name mrn modality) = Inr bs"
      by simp
    from returned_bytes_start_with_msh [OF this]
    show "\<exists>segs payload rest.
             hl7_segments (int (i + 1)) env patient_name mrn modality = Inr segs
             \<and> segs ! 0 = lit ''MSH|^~'' @ [92] @ lit ''&|RIS|MEMORIAL|RADSCHED|RAD|''
                   @ timestamp env @ lit ''||SIU^S12|'' @ message_id (int (i + 1))
                   @ lit ''|P|2.5''
             \<and> encode_utf8 (join [13] segs) = Inr payload
             \<and> bs = [0x0B] @ payload @ [0x1C, 0x0D]
             \<and> bs = [0x0B] @ map of_nat (lit ''MSH|^~'' @ [92]
                   @ lit ''&|RIS|MEMORIAL|RADSCHED|RAD|'' @ timestamp env @ lit ''||SIU^S12|''
                   @ lit ''MSG'' @ format_06d (int (i + 1)) @ lit ''|P|2.5'') @ rest"
      unfolding next_count by (simp add: message_id_def)
  qed
  from count nth bytes id format_06d_nat [of "i + 1"] format_06d_nat(1) [of "i + 2"]
  show ?thesis by simp
qed


theorem message_control_id_sequence_witness:
  "2 < length three_calls
   \<and> three_calls ! 2 = (env_straddle, lit ''Doe'', Some (lit ''MRN000042''), lit ''US'')
   \<and> message_count (fst (create_many (init (lit ''localhost'') 8661) three_calls)) = 3
   \<and> snd (create_many (init (lit ''localhost'') 8661) three_calls) ! 1 = Inl ValueError
   \<and> snd (create_many (init (lit ''localhost'') 8661) three_calls) ! 2
       = Inr ([0x0B] @ map of_nat (join [13]
           [lit ''MSH|^~'' @ [92]
              @ lit ''&|RIS|MEMORIAL|RADSCHED|RAD|20240101100059||SIU^S12|MSG000003|P|2.5'',
            lit ''SCH||5321|||||||30|MIN|^^30^202401011201^^R||||||||||||||SCHEDULED'',
            lit ''PID|1||MRN000042||Doe^Test||19800101|M|||123 Main St^^Boston^MA^02101||617-555-0123'',
            lit ''RGS|1|A'',
            lit ''AIS|1|A|US004^ABDOMINAL ULTRASOUND|202401011201'',
            lit ''AIP|1|A|RADIOLOGIST^DOE^JOHN^MD|202401011201'']) @ [0x1C, 0x0D])
   \<and> (\<exists>bs rest.
         snd (create_many (init (lit ''localhost'') 8661) three_calls) ! 2 = Inr bs
         \<and> bs = [0x0B] @ map of_nat (lit ''MSH|^~'' @ [92]
               @ lit ''&|RIS|MEMORIAL|RADSCHED|RAD|20240101100059||SIU^S12|MSG000003|P|2.5'') @ rest)
   \<and> digits_value (format_06d 3) = 3
   \<and> length (format_06d 3) = 6"
proof -
  let ?sim = "init (lit ''localhost'') 8661"
  let ?segs = "[lit ''MSH|^~'' @ [92]
              @ lit ''&|RIS|MEMORIAL|RADSCHED|RAD|20240101100059||SIU^S12|MSG000003|P|2.5'',
            lit ''SCH||5321|||||||30|MIN|^^30^202401011201^^R||||||||||||||SCHEDULED'',
            lit ''PID|1||MRN000042||Doe^Test||19800101|M|||123 Main St^^Boston^MA^02101||617-555-0123'',
            lit ''RGS|1|A'',
            lit ''AIS|1|A|US004^ABDOMINAL ULTRASOUND|202401011201'',
            lit ''AIP|1|A|RADIOLOGIST^DOE^JOHN^MD|202401011201'']"
  let ?bytes = "[0x0B] @ map of_nat (join [13] ?segs) @ [0x1C, 0x0D] :: pybytes"
  have len: "2 < length three_calls" and "1 < length three_calls"
    and third: "three_calls ! 2 = (env_straddle, lit ''Doe'', Some (lit ''MRN000042''), lit ''US'')"
    and second: "three_calls ! 1 = (env_straddle, lit ''Mary Ann Smith'', None, lit ''MRI'')"
    by (simp_all add: three_calls_def)
  note inst2 = message_control_id_sequence [OF len third, of "lit ''localhost''" 8661]
  note inst1 = message_control_id_sequence [OF \<open>1 < length three_calls\<close> second,
      of "lit ''localhost''" 8661]
  from inst2 have count: "message_count (fst (create_many ?sim three_calls)) = 3"
    by (simp add: three_calls_def)
  have "hl7_segments 2 env_straddle (lit ''Mary Ann Smith'') None (lit ''MRI'') = Inl ValueError"
    by (simp add: eval_defs zero_pad_step)
  with inst1 have raised: "snd (create_many ?sim three_calls) ! 1 = Inl ValueError"
    by (simp add: create_hl7_message_cases)
  have segs: "hl7_segments 3 env_straddle (lit ''Doe'') (Some (lit ''MRN000042'')) (lit ''US'')
      = Inr ?segs"
    by (simp add: eval_defs zero_pad_step)
  have enc: "encode_utf8 (join [13] ?segs) = Inr (map of_nat (join [13] ?segs))"
    by (rule encode_utf8_ascii) (simp add: lit_def)
  from inst2 have "snd (create_many ?sim three_calls) ! 2
      = snd (create_hl7_message \<lparr>host = lit ''localhost'', port = 8661, message_count = int 2\<rparr>
                 env_straddle (lit ''Doe'') (Some (lit ''MRN000042'')) (lit ''US''))"
    by blast
  also have "\<dots> = Inr ?bytes"
    unfolding create_hl7_message_cases using segs enc by simp
  finally have third_bytes: "snd (create_many ?sim three_calls) ! 2 = Inr ?bytes" .
  have stamp: "timestamp env_straddle = lit ''20240101100059''"
    and id: "format_06d (int (2 + 1)) = lit ''000003''"
    by (simp_all add: eval_defs zero_pad_step)
  from inst2 third_bytes obtain rest where
    "?bytes = [0x0B] @ map of_nat (lit ''MSH|^~'' @ [92]
                   @ lit ''&|RIS|MEMORIAL|RADSCHED|RAD|'' @ timestamp env_straddle
                   @ lit ''||SIU^S12|'' @ lit ''MSG'' @ format_06d (int (2 + 1))
                   @ lit ''|P|2.5'') @ rest"
    by blast
  then have "?bytes = [0x0B] @ map of_nat (lit ''MSH|^~'' @ [92]
               @ lit ''&|RIS|MEMORIAL|RADSCHED|RAD|20240101100059||SIU^S12|MSG000003|P|2.5'') @ rest"
    unfolding stamp id by (simp add: lit_def)
  with third_bytes have start: "\<exists>bs rest.
         snd (create_many ?sim three_calls) ! 2 = Inr bs
         \<and> bs = [0x0B] @ map of_nat (lit ''MSH|^~'' @ [92]
               @ lit ''&|RIS|MEMORIAL|RADSCHED|RAD|20240101100059||SIU^S12|MSG000003|P|2.5'') @ rest"
    by blast
  from inst2 have val: "digits_value (format_06d 3) = 3" and six: "length (format_06d 3) = 6"
    by simp_all
  from len third count raised third_bytes start val six show ?thesis by blast
qed

end
